theory Spec2Isabelle
  imports Complex_Main "HOL-Library.Word"
begin

unbundle bit_operations_syntax

section \<open>Multi\_Display.ino: a CAN bus driven gauge on an OLED and a NeoPixel ring\<close>

text \<open>
  The sketch targets an UNO compatible board (ATmega328): \<^verbatim>\<open>byte\<close> is 8 bits,
  \<^verbatim>\<open>int\<close> is 16 bits, \<^verbatim>\<open>long\<close> and \<^verbatim>\<open>unsigned long\<close> are 32 bits and
  \<^verbatim>\<open>float\<close> is the same type as \<^verbatim>\<open>double\<close>.

  \<^item> Bytes, 32 bit colours and the millisecond clock are words, so that their arithmetic
    wraps as on the board.
  \<^item> The \<^verbatim>\<open>int\<close> globals (stage points, LED stages, \<^verbatim>\<open>prev_range\<close>,
    \<^verbatim>\<open>warningState\<close>, \<^verbatim>\<open>gaugeType\<close>) only ever hold small values and are
    modelled by \<open>int\<close>.
  \<^item> A \<^verbatim>\<open>float\<close> reading is modelled by the real number it denotes: comparisons with
    a 16 bit \<^verbatim>\<open>int\<close> are exact in both. Rounding of float arithmetic and the
    non-finite floats are outside this model.
  \<^item> The display, the LED strip, the clock, the button pin and the ECU are external: the
    strip is a pixel buffer with counters of the calls made on it, the display is the log
    of the pages drawn, and clock, pin and ECU readings are inputs.
\<close>

type_synonym byte = "8 word"
type_synonym uint16_t = "16 word"
type_synonym uint32_t = "32 word"

subsection \<open>The NeoPixel strip\<close>

text \<open>\<^verbatim>\<open>#define NUMNEOPIXELS 16\<close>; \<^verbatim>\<open>strip.numPixels()\<close> returns it.\<close>

definition NUMNEOPIXELS :: int where
  "NUMNEOPIXELS = 16"

text \<open>
  \<^verbatim>\<open>strip.Color(r, g, b)\<close> of Adafruit\_NeoPixel packs three bytes as
  \<^verbatim>\<open>((uint32_t)r << 16) | ((uint32_t)g << 8) | b\<close>.
\<close>

definition Color :: "byte \<Rightarrow> byte \<Rightarrow> byte \<Rightarrow> uint32_t" where
  "Color r g b = push_bit 16 (ucast r) OR push_bit 8 (ucast g) OR ucast b"

definition red :: "uint32_t \<Rightarrow> byte" where
  "red c = ucast (drop_bit 16 c)"

definition green :: "uint32_t \<Rightarrow> byte" where
  "green c = ucast (drop_bit 8 c)"

definition blue :: "uint32_t \<Rightarrow> byte" where
  "blue c = ucast c"

text \<open>
  \<^verbatim>\<open>uint32_t Wheel(byte WheelPos)\<close>. The products are computed in \<^verbatim>\<open>int\<close> and
  narrowed to a byte by the call of \<^verbatim>\<open>strip.Color\<close>; narrowing commutes with
  \<open>+\<close>, \<open>-\<close> and \<open>*\<close>, so byte arithmetic gives the same bytes.
\<close>

definition Wheel :: "byte \<Rightarrow> uint32_t" where
  "Wheel WheelPos =
     (if WheelPos < 85 then Color (WheelPos * 3) (255 - WheelPos * 3) 0
      else if WheelPos < 170 then
        (let WheelPos = WheelPos - 85 in Color (255 - WheelPos * 3) 0 (WheelPos * 3))
      else
        (let WheelPos = WheelPos - 170 in Color 0 (WheelPos * 3) (255 - WheelPos * 3)))"

text \<open>How many of the three channels of a colour are 0.\<close>

definition zero_channels :: "uint32_t \<Rightarrow> nat" where
  "zero_channels c =
     (if red c = 0 then 1 else 0) + (if green c = 0 then 1 else 0) + (if blue c = 0 then 1 else 0)"

subsection \<open>The strip driver\<close>

text \<open>
  The pixel buffer of the strip, with the number of \<^verbatim>\<open>strip.setPixelColor\<close> and of
  \<^verbatim>\<open>strip.show\<close> calls made so far. \<^verbatim>\<open>show\<close> is the commit that pushes the buffer
  to the LEDs.
\<close>

record neopixel =
  pixels :: "uint32_t list"
  set_calls :: nat
  show_calls :: nat

text \<open>
  \<^verbatim>\<open>setPixelColor(uint16_t n, uint32_t c)\<close> ignores an index that is not below the
  number of pixels; the \<^verbatim>\<open>int\<close> index \<open>-1\<close> arrives as 65535 and is ignored too.
\<close>

definition setPixelColor :: "int \<Rightarrow> uint32_t \<Rightarrow> neopixel \<Rightarrow> neopixel" where
  "setPixelColor n c st =
     (if 0 \<le> n \<and> n < NUMNEOPIXELS
      then st\<lparr>pixels := (pixels st)[nat n := c], set_calls := set_calls st + 1\<rparr>
      else st\<lparr>set_calls := set_calls st + 1\<rparr>)"

definition strip_show :: "neopixel \<Rightarrow> neopixel" where
  "strip_show st = st\<lparr>show_calls := show_calls st + 1\<rparr>"

text \<open>
  \<^verbatim>\<open>for (int i = 0; i < strip.numPixels(); i++) strip.setPixelColor(i, 0);\<close>
  of \<^verbatim>\<open>clearLEDs\<close>, from the current \<open>i\<close> on.
\<close>

function clear_from :: "int \<Rightarrow> neopixel \<Rightarrow> neopixel" where
  "clear_from i st =
     (if i < NUMNEOPIXELS then clear_from (i + 1) (setPixelColor i 0 st) else st)"
  by pat_completeness auto
termination
  by (relation "measure (\<lambda>(i, st). nat (NUMNEOPIXELS - i))") auto

declare clear_from.simps [simp del]

definition clearLEDs :: "neopixel \<Rightarrow> neopixel" where
  "clearLEDs st = strip_show (clear_from 0 st)"

text \<open>
  \<^verbatim>\<open>for (int i = start; i < strip.numPixels(); i = i + 2) strip.setPixelColor(i, c);\<close>
  is each of the four loops of the blink pattern, from the current \<open>i\<close> on.
\<close>

function set_alternate :: "int \<Rightarrow> uint32_t \<Rightarrow> neopixel \<Rightarrow> neopixel" where
  "set_alternate i c st =
     (if i < NUMNEOPIXELS then set_alternate (i + 2) c (setPixelColor i c st) else st)"
  by pat_completeness auto
termination
  by (relation "measure (\<lambda>(i, c, st). nat (NUMNEOPIXELS - i))") auto

declare set_alternate.simps [simp del]

text \<open>The pixels that are not off.\<close>

definition lit_pixels :: "neopixel \<Rightarrow> nat" where
  "lit_pixels st = length (filter (\<lambda>c. c \<noteq> 0) (pixels st))"

subsection \<open>The gauge configuration\<close>

text \<open>
  The globals \<^verbatim>\<open>stagePT[2]\<close>, \<^verbatim>\<open>ledStages[4]\<close>, \<^verbatim>\<open>color[3]\<close> and
  \<^verbatim>\<open>alarmOutsideRange\<close>, one field per array element.
\<close>

record GaugeConfig =
  stagePT0 :: int
  stagePT1 :: int
  ledStages0 :: int
  ledStages1 :: int
  ledStages2 :: int
  ledStages3 :: int
  color0 :: uint32_t
  color1 :: uint32_t
  color2 :: uint32_t
  alarmOutsideRange :: bool

definition set_levels ::
  "int \<Rightarrow> int \<Rightarrow> int \<Rightarrow> int \<Rightarrow> int \<Rightarrow> int \<Rightarrow> int \<Rightarrow> bool \<Rightarrow> GaugeConfig \<Rightarrow> GaugeConfig" where
  "set_levels pt0 pt1 stage0 stage1 c0 c1 c2 alarm cfg =
     cfg\<lparr>stagePT0 := pt0,
         stagePT1 := pt1,
         ledStages1 := stage0,
         ledStages2 := stage1,
         color0 := Wheel (word_of_int (c0 AND 255)),
         color1 := Wheel (word_of_int (c1 AND 255)),
         color2 := Wheel (word_of_int (c2 AND 255)),
         alarmOutsideRange := alarm\<rparr>"

subsection \<open>The LED ring renderer\<close>

text \<open>
  The globals the renderer owns: \<^verbatim>\<open>prev_range\<close>, \<^verbatim>\<open>warningState\<close>,
  \<^verbatim>\<open>prevBlinkTime\<close> and the strip.
\<close>

record LedStripState =
  prev_range :: int
  warningState :: int
  prevBlinkTime :: uint32_t
  strip :: neopixel

text \<open>
  The conversion of a \<^verbatim>\<open>float\<close> argument to the \<^verbatim>\<open>long\<close> parameter of
  \<^verbatim>\<open>map\<close> drops the fraction.
\<close>

definition float_to_long :: "real \<Rightarrow> int" where
  "float_to_long x = (if 0 \<le> x then \<lfloor>x\<rfloor> else \<lceil>x\<rceil>)"

text \<open>Division of C: the quotient is rounded towards zero.\<close>

definition cdiv :: "int \<Rightarrow> int \<Rightarrow> int" where
  "cdiv a b = sgn a * sgn b * (\<bar>a\<bar> div \<bar>b\<bar>)"

text \<open>
  \<^verbatim>\<open>long map(long x, long in_min, long in_max, long out_min, long out_max)\<close> of the
  Arduino core returns
  \<^verbatim>\<open>(x - in_min) * (out_max - out_min) / (in_max - in_min) + out_min\<close>.
  The arithmetic is that of \<open>int\<close>: it agrees with the 32 bit arithmetic of the board as
  long as that does not overflow and \<open>in_max \<noteq> in_min\<close>.
\<close>

definition map_long :: "int \<Rightarrow> int \<Rightarrow> int \<Rightarrow> int \<Rightarrow> int \<Rightarrow> int" where
  "map_long x in_min in_max out_min out_max =
     cdiv ((x - in_min) * (out_max - out_min)) (in_max - in_min) + out_min"

text \<open>The result of \<^verbatim>\<open>map\<close> is stored in an \<^verbatim>\<open>int\<close>, which keeps its low 16 bits.\<close>

definition long_to_int :: "int \<Rightarrow> int" where
  "long_to_int x = sint (word_of_int x :: 16 word)"

text \<open>\<^verbatim>\<open>#define constrain(amt,low,high) ((amt)<(low)?(low):((amt)>(high)?(high):(amt)))\<close>\<close>

definition constrain :: "int \<Rightarrow> int \<Rightarrow> int \<Rightarrow> int" where
  "constrain amt low high = (if amt < low then low else if amt > high then high else amt)"

definition displayValueMapped :: "GaugeConfig \<Rightarrow> real \<Rightarrow> int" where
  "displayValueMapped cfg displayValue =
     long_to_int (map_long (float_to_long displayValue) (stagePT0 cfg) (stagePT1 cfg) 0 NUMNEOPIXELS)"

definition displayValueConstrained :: "GaugeConfig \<Rightarrow> real \<Rightarrow> int" where
  "displayValueConstrained cfg displayValue =
     constrain (displayValueMapped cfg displayValue) 0 NUMNEOPIXELS"

definition numOfLEDs :: "GaugeConfig \<Rightarrow> real \<Rightarrow> int" where
  "numOfLEDs cfg displayValue = NUMNEOPIXELS - 1 - displayValueConstrained cfg displayValue"

text \<open>The body of the loop over \<^verbatim>\<open>ledNum\<close>: the colour of a pixel follows its stage.\<close>

definition set_stage_color :: "GaugeConfig \<Rightarrow> int \<Rightarrow> neopixel \<Rightarrow> neopixel" where
  "set_stage_color cfg ledNum st =
     (if ledNum \<ge> ledStages1 cfg then setPixelColor ledNum (color0 cfg) st
      else if ledNum < ledStages1 cfg \<and> ledNum \<ge> ledStages2 cfg then setPixelColor ledNum (color1 cfg) st
      else if ledNum < ledStages2 cfg then setPixelColor ledNum (color2 cfg) st
      else st)"

text \<open>
  \<^verbatim>\<open>for (int ledNum = strip.numPixels()-1; ledNum >= numOfLEDs; ledNum--)\<close>, from the
  current \<open>ledNum\<close> on.
\<close>

function light_down_to :: "GaugeConfig \<Rightarrow> int \<Rightarrow> int \<Rightarrow> neopixel \<Rightarrow> neopixel" where
  "light_down_to cfg n ledNum st =
     (if ledNum \<ge> n then light_down_to cfg n (ledNum - 1) (set_stage_color cfg ledNum st) else st)"
  by pat_completeness auto
termination
  by (relation "measure (\<lambda>(cfg, n, ledNum, st). nat (ledNum - n + 1))") auto

declare light_down_to.simps [simp del]

text \<open>The three regimes of \<^verbatim>\<open>ledStrip_update\<close>, chosen by its chain of conditions.\<close>

datatype regime = InRange | Alarm | BelowRange

definition regime_of :: "GaugeConfig \<Rightarrow> real \<Rightarrow> regime" where
  "regime_of cfg displayValue =
     (if displayValue \<ge> of_int (stagePT0 cfg)
         \<and> (displayValue < of_int (stagePT1 cfg) \<or> \<not> alarmOutsideRange cfg) then InRange
      else if displayValue \<ge> of_int (stagePT1 cfg) \<and> alarmOutsideRange cfg then Alarm
      else BelowRange)"

definition blinkInterval :: uint32_t where
  "blinkInterval = 150"

definition render_in_range :: "GaugeConfig \<Rightarrow> real \<Rightarrow> LedStripState \<Rightarrow> LedStripState" where
  "render_in_range cfg displayValue l =
     (let n = numOfLEDs cfg displayValue in
      if prev_range l \<noteq> n then
        l\<lparr>prev_range := n,
          strip := strip_show (light_down_to cfg n (NUMNEOPIXELS - 1) (clearLEDs (strip l)))\<rparr>
      else l)"

definition render_alarm :: "GaugeConfig \<Rightarrow> uint32_t \<Rightarrow> LedStripState \<Rightarrow> LedStripState" where
  "render_alarm cfg currentMillis l =
     (let l = l\<lparr>prev_range := 8\<rparr> in
      if currentMillis - prevBlinkTime l > blinkInterval then
        (let l = l\<lparr>prevBlinkTime := currentMillis\<rparr> in
         if warningState l = 0 then
           l\<lparr>warningState := 1,
             strip := strip_show (set_alternate 1 0 (set_alternate 0 (color2 cfg) (strip l)))\<rparr>
         else
           l\<lparr>warningState := 0,
             strip := strip_show (set_alternate 0 0 (set_alternate 1 (color2 cfg) (strip l)))\<rparr>)
      else l)"

definition render_below :: "LedStripState \<Rightarrow> LedStripState" where
  "render_below l =
     (if prev_range l \<noteq> 100 then l\<lparr>prev_range := 100, strip := clearLEDs (strip l)\<rparr> else l)"

text \<open>
  \<^verbatim>\<open>void ledStrip_update(float displayValue)\<close>; \<open>currentMillis\<close> is what
  \<^verbatim>\<open>millis()\<close> returns at its start. The serial prints of the loop are left out.
\<close>

definition ledStrip_update ::
  "GaugeConfig \<Rightarrow> real \<Rightarrow> uint32_t \<Rightarrow> LedStripState \<Rightarrow> LedStripState" where
  "ledStrip_update cfg displayValue currentMillis l =
     (case regime_of cfg displayValue of
        InRange \<Rightarrow> render_in_range cfg displayValue l
      | Alarm \<Rightarrow> render_alarm cfg currentMillis l
      | BelowRange \<Rightarrow> render_below l)"

subsection \<open>The display updater\<close>

text \<open>
  A page drawn on the OLED by one \<^verbatim>\<open>firstPage\<close>/\<^verbatim>\<open>nextPage\<close> loop: the static
  message, or a label with a value and the width and precision \<^verbatim>\<open>dtostrf\<close> formats it
  with.
\<close>

datatype page = NoData | Reading string real nat nat

text \<open>
  The globals \<^verbatim>\<open>lastDisplayValue\<close> and \<^verbatim>\<open>prevDispTime\<close>, and the pages drawn so
  far, the latest last.
\<close>

record DisplayState =
  lastDisplayValue :: real
  prevDispTime :: uint32_t
  oled :: "page list"

definition dispInterval :: uint32_t where
  "dispInterval = 100"

text \<open>
  \<^verbatim>\<open>void OLED_update(float displayValue, byte width, byte precision, char* label)\<close>;
  \<open>currentMillis\<close> is what \<^verbatim>\<open>millis()\<close> returns. The difference of the
  \<^verbatim>\<open>unsigned long\<close> clock and the \<^verbatim>\<open>long\<close> time stamp is unsigned, and so is its
  comparison with the interval.
\<close>

definition OLED_update ::
  "real \<Rightarrow> nat \<Rightarrow> nat \<Rightarrow> string \<Rightarrow> uint32_t \<Rightarrow> DisplayState \<Rightarrow> DisplayState" where
  "OLED_update displayValue width precision label currentMillis d =
     (if lastDisplayValue d \<noteq> displayValue then
        (let d = d\<lparr>lastDisplayValue := displayValue\<rparr> in
         if currentMillis - prevDispTime d > dispInterval then
           d\<lparr>prevDispTime := currentMillis,
             oled := oled d @ [Reading label displayValue width precision]\<rparr>
         else d)
      else d)"

subsection \<open>The sketch: button, modes and main loop\<close>

record sketch =
  cfg :: GaugeConfig
  led :: LedStripState
  disp :: DisplayState
  gaugeType :: int
  button_was_pressed :: bool

text \<open>
  The globals as their initialisers leave them, with the strip dark as
  \<^verbatim>\<open>setup\<close> leaves it.
\<close>

definition initial :: sketch where
  "initial =
     \<lparr>cfg = \<lparr>stagePT0 = 4200, stagePT1 = 6200,
             ledStages0 = NUMNEOPIXELS - 1, ledStages1 = 5, ledStages2 = 2, ledStages3 = 0,
             color0 = 0, color1 = 0, color2 = 0, alarmOutsideRange = True\<rparr>,
      led = \<lparr>prev_range = 100, warningState = 0, prevBlinkTime = 0,
             strip = \<lparr>pixels = replicate 16 0, set_calls = 0, show_calls = 0\<rparr>\<rparr>,
      disp = \<lparr>lastDisplayValue = 0, prevDispTime = 0, oled = []\<rparr>,
      gaugeType = 1,
      button_was_pressed = True\<rparr>"

text \<open>
  \<^verbatim>\<open>void handle_button()\<close>; \<open>pin\<close> is what \<^verbatim>\<open>digitalRead(BUTTON_PIN)\<close>
  returns: a low pin is a pressed button.
\<close>

definition handle_button :: "bool \<Rightarrow> sketch \<Rightarrow> sketch" where
  "handle_button pin s =
     (let button_now_pressed = \<not> pin;
          event = (button_now_pressed \<and> \<not> button_was_pressed s);
          s = s\<lparr>button_was_pressed := button_now_pressed\<rparr>
      in if event then
           (let s = s\<lparr>gaugeType := gaugeType s + 1\<rparr>
            in if gaugeType s > 8 then s\<lparr>gaugeType := 1\<rparr> else s)
         else s)"

text \<open>The PIDs the sketch asks the ECU for.\<close>

datatype pid =
  ENGINE_RPM | VEHICLE_SPEED | MAF_SENSOR | MAP | BAROMETRIC | FUEL_LEVEL
  | ENGINE_COOLANT_TEMP | AMBIENT_TEMP

text \<open>
  What one pass of \<^verbatim>\<open>loop\<close> reads from outside: the answers of
  \<^verbatim>\<open>Canbus.ecu_req\<close> (the library is not part of the sources; it answers with a
  reading or with 0.9 for no data), the light sensor, the clock at the calls of
  \<^verbatim>\<open>OLED_update\<close> and of \<^verbatim>\<open>ledStrip_update\<close>, and the button pin.
\<close>

record inputs =
  ecu_req :: "pid \<Rightarrow> real"
  GetLightIntensity :: uint16_t
  millis_OLED :: uint32_t
  millis_LED :: uint32_t
  digitalRead :: bool

text \<open>The \<^verbatim>\<open>float\<close> the literal \<^verbatim>\<open>.9\<close> denotes.\<close>

definition no_data_value :: real where
  "no_data_value = 9 / 10"

text \<open>The two endings every case of the switch has.\<close>

definition show_gauge :: "inputs \<Rightarrow> real \<Rightarrow> nat \<Rightarrow> nat \<Rightarrow> string \<Rightarrow> sketch \<Rightarrow> sketch" where
  "show_gauge inp v width precision label s =
     (let s = s\<lparr>disp := OLED_update v width precision label (millis_OLED inp) (disp s)\<rparr>
      in s\<lparr>led := ledStrip_update (cfg s) v (millis_LED inp) (led s)\<rparr>)"

definition show_no_data :: "sketch \<Rightarrow> sketch" where
  "show_no_data s = s\<lparr>disp := (disp s)\<lparr>oled := oled (disp s) @ [NoData]\<rparr>\<rparr>"

text \<open>
  The switch of \<^verbatim>\<open>loop\<close>. The default arguments of \<^verbatim>\<open>set_levels\<close> are written
  out. The quotient of case 3 is that of the reals: where \<open>maf = 0\<close> the sketch computes a
  non-finite float, which is outside this model.
\<close>

definition gauge :: "inputs \<Rightarrow> sketch \<Rightarrow> sketch" where
  "gauge inp s =
     (if gaugeType s = 1 then
        (let rpm = ecu_req inp ENGINE_RPM in
         if rpm \<noteq> no_data_value then
           show_gauge inp rpm 4 0 ''RPM''
             (s\<lparr>cfg := set_levels 4200 6200 5 2 255 48 86 True (cfg s)\<rparr>)
         else show_no_data s)
      else if gaugeType s = 2 then
        (let vss = ecu_req inp VEHICLE_SPEED in
         if vss \<noteq> no_data_value then
           (let vss = vss * 0.62137119 in
            show_gauge inp vss 3 1 ''Speed (mph)''
              (s\<lparr>cfg := set_levels 1 100 5 2 255 48 86 True (cfg s)\<rparr>))
         else show_no_data s)
      else if gaugeType s = 3 then
        (let vss = ecu_req inp VEHICLE_SPEED; maf = ecu_req inp MAF_SENSOR in
         if vss \<noteq> no_data_value \<or> maf \<noteq> no_data_value then
           (let instantMPG = (14.7 * 6.17 * 454 * vss * 0.6213) / (3600 * maf) in
            show_gauge inp instantMPG 4 1 ''Instant MPG''
              (s\<lparr>cfg := set_levels 1 50 14 12 48 10 0 False (cfg s)\<rparr>))
         else show_no_data s)
      else if gaugeType s = 5 then
        (let fuel = ecu_req inp FUEL_LEVEL in
         if fuel \<noteq> no_data_value then
           (let c = set_levels 1 100 14 12 86 48 0 False (cfg s);
                c = c\<lparr>stagePT0 := 1\<rparr>;
                c = c\<lparr>stagePT1 := 100\<rparr>;
                c = c\<lparr>ledStages1 := NUMNEOPIXELS\<rparr>
            in show_gauge inp fuel 4 1 ''Fuel Level (%)'' (s\<lparr>cfg := c\<rparr>))
         else show_no_data s)
      else if gaugeType s = 6 then
        (let coolant = ecu_req inp ENGINE_COOLANT_TEMP in
         if coolant \<noteq> no_data_value then
           (let coolant = (coolant * 1.8) + 32 in
            show_gauge inp coolant 4 1 ''Coolant (f)''
              (s\<lparr>cfg := set_levels 190 220 5 2 0 48 86 False (cfg s)\<rparr>))
         else show_no_data s)
      else if gaugeType s = 7 then
        (let temp = ecu_req inp AMBIENT_TEMP in
         if temp \<noteq> no_data_value then
           (let temp = (temp * 1.8) + 32 in
            show_gauge inp temp 4 1 ''Ambient (f)''
              (s\<lparr>cfg := set_levels 85 110 5 2 0 48 86 False (cfg s)\<rparr>))
         else show_no_data s)
      else if gaugeType s = 8 then
        (let lux = GetLightIntensity inp in
         show_gauge inp (real (unat lux)) 5 0 ''LUX''
           (s\<lparr>cfg := set_levels 0 10000 5 2 0 48 86 False (cfg s)\<rparr>))
      else
        (let manifoldAP = ecu_req inp MAP; bar = ecu_req inp BAROMETRIC in
         if manifoldAP \<noteq> no_data_value \<or> bar \<noteq> no_data_value then
           (let boost = (manifoldAP - bar) * 0.1450377377 in
            show_gauge inp boost 4 1 ''Boost (psi)''
              (s\<lparr>cfg := set_levels (- 15) 10 12 7 20 10 0 False (cfg s)\<rparr>))
         else show_no_data s))"

definition loop :: "inputs \<Rightarrow> sketch \<Rightarrow> sketch" where
  "loop inp s = handle_button (digitalRead inp) (gauge inp s)"

text \<open>The passes of \<^verbatim>\<open>loop\<close> over a sequence of inputs.\<close>

fun run :: "inputs list \<Rightarrow> sketch \<Rightarrow> sketch" where
  "run [] s = s"
| "run (inp # inps) s = run inps (loop inp s)"

subsection \<open>Stage colours, sample configurations and sample inputs\<close>

text \<open>The colour the loop over \<^verbatim>\<open>ledNum\<close> gives pixel \<open>k\<close>.\<close>

definition stage_color :: "GaugeConfig \<Rightarrow> int \<Rightarrow> uint32_t" where
  "stage_color c k =
     (if k \<ge> ledStages1 c then color0 c else if k \<ge> ledStages2 c then color1 c else color2 c)"

text \<open>The configurations that case 1 (tachometer) and case 6 (coolant) apply.\<close>

definition tachometer :: GaugeConfig where
  "tachometer = set_levels 4200 6200 5 2 255 48 86 True (cfg initial)"

definition coolant_gauge :: GaugeConfig where
  "coolant_gauge = set_levels 190 220 5 2 0 48 86 False (cfg initial)"

text \<open>
  A pass in which every ECU query answers 0.9 and the button is up, and the same pass
  with the button down.
\<close>

definition released :: inputs where
  "released =
     \<lparr>ecu_req = (\<lambda>p. 9 / 10), GetLightIntensity = 0, millis_OLED = 2000, millis_LED = 2000,
      digitalRead = True\<rparr>"

definition pressed :: inputs where
  "pressed = released\<lparr>digitalRead := False\<rparr>"

text \<open>A display on which 5 was drawn at time 1000.\<close>

definition drawn_5 :: DisplayState where
  "drawn_5 = \<lparr>lastDisplayValue = 5, prevDispTime = 1000, oled = [Reading ''RPM'' 5 4 0]\<rparr>"

text \<open>
  Passes in which the ECU answers one query with a reading: the fuel level, the engine
  speed, and the vehicle speed (while the mass air flow query still answers 0.9).
\<close>

definition fuel_50 :: inputs where
  "fuel_50 = released\<lparr>ecu_req := (ecu_req released)(FUEL_LEVEL := 50)\<rparr>"

definition rpm_3000 :: inputs where
  "rpm_3000 = released\<lparr>ecu_req := (ecu_req released)(ENGINE_RPM := 3000)\<rparr>"

definition speed_only :: inputs where
  "speed_only = released\<lparr>ecu_req := (ecu_req released)(VEHICLE_SPEED := 60)\<rparr>"

text \<open>The sketch after two and after four presses of the button with no ECU data.\<close>

definition at_mode_3 :: sketch where
  "at_mode_3 = run [released, pressed, released, pressed] initial"

definition at_mode_5 :: sketch where
  "at_mode_5 = run [released, pressed, released, pressed] at_mode_3"

section \<open>Properties\<close>

subsection \<open>The colour wheel\<close>

lemma red_Color: "red (Color r g b) = r"
  unfolding red_def Color_def
  by (rule bit_word_eqI) (auto simp: bit_simps dest: bit_imp_le_length)

lemma green_Color: "green (Color r g b) = g"
  unfolding green_def Color_def
  by (rule bit_word_eqI) (auto simp: bit_simps dest: bit_imp_le_length)

lemma blue_Color: "blue (Color r g b) = b"
  unfolding blue_def Color_def
  by (rule bit_word_eqI) (auto simp: bit_simps dest: bit_imp_le_length)

lemma zero_channels_Color:
  "zero_channels (Color r g b) =
     (if r = 0 then 1 else 0) + (if g = 0 then 1 else 0) + (if b = 0 then 1 else 0)"
  by (simp add: zero_channels_def red_Color green_Color blue_Color)

text \<open>Within a band the rising channel is \<open>3 * q\<close> and the falling one \<open>255 - 3 * q\<close>.\<close>

lemma unat_ramp:
  fixes q :: byte
  assumes "q \<le> 85"
  shows "unat (q * 3) = 3 * unat q"
proof -
  have "unat q \<le> 85"
    using assms by (simp add: word_le_nat_alt)
  then show ?thesis
    by (simp add: unat_word_ariths)
qed

lemma ramp_up_zero:
  fixes q :: byte
  assumes "q \<le> 85"
  shows "(q * 3 = 0) = (q = 0)"
proof -
  have "(q * 3 = 0) = (unat (q * 3) = 0)"
    by (simp add: unat_eq_0)
  also have "\<dots> = (unat q = 0)"
    by (simp add: unat_ramp [OF assms])
  also have "\<dots> = (q = 0)"
    by (simp add: unat_eq_0)
  finally show ?thesis .
qed

lemma ramp_down_zero:
  fixes q :: byte
  assumes "q \<le> 85"
  shows "(q * 3 = 255) = (q = 85)"
proof -
  have le: "unat q \<le> 85"
    using assms by (simp add: word_le_nat_alt)
  have "(q * 3 = 255) = (unat (q * 3) = unat (255 :: byte))"
    by (simp only: word_unat_eq_iff)
  also have "\<dots> = (unat q = 85)"
    using le by (simp add: unat_ramp [OF assms])
  also have "\<dots> = (unat q = unat (85 :: byte))"
    by simp
  also have "\<dots> = (q = 85)"
    by (simp only: word_unat_eq_iff)
  finally show ?thesis .
qed

lemma ramp_channels:
  fixes q :: byte
  assumes "q \<le> 85"
  shows "zero_channels (Color (q * 3) (255 - q * 3) 0) = (if q = 0 \<or> q = 85 then 2 else 1)"
    and "zero_channels (Color (255 - q * 3) 0 (q * 3)) = (if q = 0 \<or> q = 85 then 2 else 1)"
    and "zero_channels (Color 0 (q * 3) (255 - q * 3)) = (if q = 0 \<or> q = 85 then 2 else 1)"
  by (simp_all add: zero_channels_Color ramp_up_zero [OF assms] ramp_down_zero [OF assms])

lemma second_band: "(p::byte) < 170 \<Longrightarrow> \<not> p < 85 \<Longrightarrow> p - 85 \<le> 85"
  by (simp add: word_le_nat_alt word_less_nat_alt unat_sub)

lemma third_band:
  fixes p :: byte
  assumes "\<not> p < 170"
  shows "p - 170 \<le> 85"
proof -
  have "unat p < 2 ^ 8"
    using unsigned_less [of p] by simp
  then show ?thesis
    using assms by (simp add: word_le_nat_alt word_less_nat_alt unat_sub)
qed

lemma shift85: "((p::byte) - 85 = 0) = (p = 85)" "((p::byte) - 85 = 85) = (p = 170)"
  by auto

lemma shift170: "((p::byte) - 170 = 0) = (p = 170)" "((p::byte) - 170 = 85) = (p = 255)"
  by auto

lemma Wheel_band1: "p < 85 \<Longrightarrow> Wheel p = Color (p * 3) (255 - p * 3) 0"
  unfolding Wheel_def by (simp only: if_True)

lemma Wheel_band2:
  "\<not> p < 85 \<Longrightarrow> p < 170 \<Longrightarrow> Wheel p = Color (255 - (p - 85) * 3) 0 ((p - 85) * 3)"
  unfolding Wheel_def Let_def by (simp only: if_True if_False)

lemma Wheel_band3:
  assumes "\<not> p < 170"
  shows "Wheel p = Color 0 ((p - 170) * 3) (255 - (p - 170) * 3)"
proof -
  have "\<not> p < 85"
    using assms by (simp add: word_less_nat_alt)
  then show ?thesis
    using assms unfolding Wheel_def Let_def by (simp only: if_False)
qed

lemma Wheel_channels: "zero_channels (Wheel p) = (if p \<in> {0, 85, 170, 255} then 2 else 1)"
proof (cases "p < 85")
  case True
  then have le: "p \<le> 85"
    by simp
  from True have ne: "p \<noteq> 85" "p \<noteq> 170" "p \<noteq> 255"
    by (auto simp: word_less_nat_alt)
  have "zero_channels (Wheel p) = (if p = 0 \<or> p = 85 then 2 else 1)"
    by (simp only: Wheel_band1 [OF True] ramp_channels(1) [OF le])
  then show ?thesis
    using ne by simp
next
  case False
  note ge85 = this
  show ?thesis
  proof (cases "p < 170")
    case True
    have le: "p - 85 \<le> 85"
      using True ge85 by (rule second_band)
    from True ge85 have ne: "p \<noteq> 0" "p \<noteq> 255"
      by (auto simp: word_less_nat_alt)
    have "zero_channels (Wheel p) = (if p - 85 = 0 \<or> p - 85 = 85 then 2 else 1)"
      by (simp only: Wheel_band2 [OF ge85 True] ramp_channels(2) [OF le])
    also have "\<dots> = (if p = 85 \<or> p = 170 then 2 else 1)"
      by (simp only: shift85)
    finally show ?thesis
      using ne by simp
  next
    case False
    have le: "p - 170 \<le> 85"
      using False by (rule third_band)
    from False have ne: "p \<noteq> 0" "p \<noteq> 85"
      by (auto simp: word_less_nat_alt)
    have "zero_channels (Wheel p) = (if p - 170 = 0 \<or> p - 170 = 85 then 2 else 1)"
      by (simp only: Wheel_band3 [OF False] ramp_channels(3) [OF le])
    also have "\<dots> = (if p = 170 \<or> p = 255 then 2 else 1)"
      by (simp only: shift170)
    finally show ?thesis
      using ne by simp
  qed
qed

text \<open>No position of the wheel is black, so a pixel given a wheel colour is lit.\<close>

lemma Wheel_nonzero: "Wheel p \<noteq> 0"
proof
  assume "Wheel p = 0"
  then have "zero_channels (Wheel p) = 3"
    by (simp add: zero_channels_def red_def green_def blue_def)
  then show False
    by (simp add: Wheel_channels split: if_splits)
qed

text \<open>
  C8. For every byte \<open>p\<close>, exactly one of the three channels of \<open>Wheel p\<close> is 0,
  except at the band boundaries: the positions 0, 85 and 170 where a band of 85 positions
  starts and the position 255 where the last band ends. There two channels are 0 (the
  colour is pure green, red, blue and green again).
\<close>

theorem Wheel_one_zero_channel:
  "zero_channels (Wheel p) = (if p \<in> {0, 85, 170, 255} then 2 else 1)"
  by (rule Wheel_channels)

subsection \<open>The strip driver and the loops over the pixels\<close>

lemma pixels_setPixelColor:
  "pixels (setPixelColor n c st) =
     (if 0 \<le> n \<and> n < NUMNEOPIXELS then (pixels st)[nat n := c] else pixels st)"
  by (simp add: setPixelColor_def)

lemma show_calls_setPixelColor: "show_calls (setPixelColor n c st) = show_calls st"
  by (simp add: setPixelColor_def)

lemma show_calls_clear_from: "show_calls (clear_from i st) = show_calls st"
  by (induction i st rule: clear_from.induct)
     (subst clear_from.simps, simp add: show_calls_setPixelColor)

lemma show_calls_set_alternate: "show_calls (set_alternate i c st) = show_calls st"
  by (induction i c st rule: set_alternate.induct)
     (subst set_alternate.simps, simp add: show_calls_setPixelColor)

lemma show_calls_clearLEDs: "show_calls (clearLEDs st) = show_calls st + 1"
  by (simp add: clearLEDs_def strip_show_def show_calls_clear_from)

lemma length_pixels_clear_from: "length (pixels (clear_from i st)) = length (pixels st)"
  by (induction i st rule: clear_from.induct)
     (subst clear_from.simps, simp add: pixels_setPixelColor)

lemma nth_pixels_clear_from:
  "0 \<le> i \<Longrightarrow> k < length (pixels st) \<Longrightarrow>
   pixels (clear_from i st) ! k =
     (if i \<le> int k \<and> int k < NUMNEOPIXELS then 0 else pixels st ! k)"
proof (induction i st rule: clear_from.induct)
  case (1 i st)
  show ?case
  proof (cases "i < NUMNEOPIXELS")
    case True
    have "pixels (clear_from i st) ! k = pixels (clear_from (i + 1) (setPixelColor i 0 st)) ! k"
      using True by (subst clear_from.simps) simp
    also have "\<dots> = (if i + 1 \<le> int k \<and> int k < NUMNEOPIXELS then 0
                      else pixels (setPixelColor i 0 st) ! k)"
      using "1.IH" [OF True] "1.prems" by (simp add: pixels_setPixelColor)
    also have "\<dots> = (if i \<le> int k \<and> int k < NUMNEOPIXELS then 0 else pixels st ! k)"
      using True "1.prems" by (auto simp: pixels_setPixelColor nth_list_update)
    finally show ?thesis .
  next
    case False
    then show ?thesis
      by (subst clear_from.simps) auto
  qed
qed

text \<open>\<^verbatim>\<open>clearLEDs\<close> leaves every pixel of the 16 off.\<close>

lemma pixels_clearLEDs:
  assumes "length (pixels st) = 16"
  shows "pixels (clearLEDs st) = replicate 16 0"
proof (rule nth_equalityI)
  show "length (pixels (clearLEDs st)) = length (replicate 16 (0::uint32_t))"
    by (simp add: clearLEDs_def strip_show_def length_pixels_clear_from assms)
  fix k
  assume "k < length (pixels (clearLEDs st))"
  then have "k < 16"
    by (simp add: clearLEDs_def strip_show_def length_pixels_clear_from assms)
  then show "pixels (clearLEDs st) ! k = replicate 16 0 ! k"
    by (simp add: clearLEDs_def strip_show_def nth_pixels_clear_from assms NUMNEOPIXELS_def)
qed

lemma set_stage_color_eq: "set_stage_color c k st = setPixelColor k (stage_color c k) st"
  by (simp add: set_stage_color_def stage_color_def)

lemma stage_color_nonzero:
  "color0 c \<noteq> 0 \<Longrightarrow> color1 c \<noteq> 0 \<Longrightarrow> color2 c \<noteq> 0 \<Longrightarrow> stage_color c k \<noteq> 0"
  by (simp add: stage_color_def)

lemma length_pixels_light_down_to:
  "length (pixels (light_down_to c n j st)) = length (pixels st)"
  by (induction c n j st rule: light_down_to.induct)
     (subst light_down_to.simps, simp add: set_stage_color_eq pixels_setPixelColor)

text \<open>The loop over \<^verbatim>\<open>ledNum\<close> colours the pixels from \<open>j\<close> down to \<open>n\<close>.\<close>

lemma nth_pixels_light_down_to:
  "j < NUMNEOPIXELS \<Longrightarrow> k < length (pixels st) \<Longrightarrow>
   pixels (light_down_to c n j st) ! k =
     (if n \<le> int k \<and> int k \<le> j then stage_color c (int k) else pixels st ! k)"
proof (induction c n j st rule: light_down_to.induct)
  case (1 c n j st)
  show ?case
  proof (cases "n \<le> j")
    case True
    have "pixels (light_down_to c n j st) ! k =
        pixels (light_down_to c n (j - 1) (set_stage_color c j st)) ! k"
      using True by (subst light_down_to.simps) simp
    also have "\<dots> = (if n \<le> int k \<and> int k \<le> j - 1 then stage_color c (int k)
                      else pixels (set_stage_color c j st) ! k)"
      using "1.IH" [OF True] "1.prems" by (simp add: set_stage_color_eq pixels_setPixelColor)
    also have "\<dots> = (if n \<le> int k \<and> int k \<le> j then stage_color c (int k) else pixels st ! k)"
      using True "1.prems" by (auto simp: set_stage_color_eq pixels_setPixelColor nth_list_update)
    finally show ?thesis .
  next
    case False
    then show ?thesis
      by (subst light_down_to.simps) auto
  qed
qed

subsection \<open>The three regimes of the renderer\<close>

lemma ledStrip_update_InRange:
  "regime_of c v = InRange \<Longrightarrow> ledStrip_update c v t l = render_in_range c v l"
  by (simp add: ledStrip_update_def)

lemma ledStrip_update_Alarm:
  "regime_of c v = Alarm \<Longrightarrow> ledStrip_update c v t l = render_alarm c t l"
  by (simp add: ledStrip_update_def)

lemma ledStrip_update_BelowRange:
  "regime_of c v = BelowRange \<Longrightarrow> ledStrip_update c v t l = render_below l"
  by (simp add: ledStrip_update_def)

lemma prev_range_render_in_range: "prev_range (render_in_range c v l) = numOfLEDs c v"
  by (simp add: render_in_range_def Let_def)

lemma prev_range_render_alarm: "prev_range (render_alarm c t l) = 8"
  by (simp add: render_alarm_def Let_def)

lemma prev_range_render_below: "prev_range (render_below l) = 100"
  by (simp add: render_below_def)

lemma render_in_range_same: "prev_range l = numOfLEDs c v \<Longrightarrow> render_in_range c v l = l"
  by (simp add: render_in_range_def)

lemma render_below_same: "prev_range l = 100 \<Longrightarrow> render_below l = l"
  by (simp add: render_below_def)

lemma show_calls_render_below:
  "show_calls (strip (render_below l)) \<le> show_calls (strip l) + 1"
  by (simp add: render_below_def show_calls_clearLEDs)

lemma strip_render_in_range:
  "prev_range l \<noteq> numOfLEDs c v \<Longrightarrow>
   strip (render_in_range c v l) =
     strip_show (light_down_to c (numOfLEDs c v) (NUMNEOPIXELS - 1) (clearLEDs (strip l)))"
  by (simp add: render_in_range_def Let_def)

lemma render_alarm_toggle:
  "currentMillis - prevBlinkTime l > blinkInterval \<Longrightarrow>
   render_alarm c currentMillis l =
     l\<lparr>prev_range := 8, prevBlinkTime := currentMillis,
       warningState := (if warningState l = 0 then 1 else 0),
       strip := strip_show
         (if warningState l = 0
          then set_alternate 1 0 (set_alternate 0 (color2 c) (strip l))
          else set_alternate 0 0 (set_alternate 1 (color2 c) (strip l)))\<rparr>"
  by (simp add: render_alarm_def Let_def)

lemma render_alarm_wait:
  "\<not> currentMillis - prevBlinkTime l > blinkInterval \<Longrightarrow>
   render_alarm c currentMillis l = l\<lparr>prev_range := 8\<rparr>"
  by (simp add: render_alarm_def Let_def)

lemma warningState_render_alarm:
  "warningState (render_alarm c t l) \<noteq> warningState l \<longleftrightarrow> t - prevBlinkTime l > blinkInterval"
  by (cases "t - prevBlinkTime l > blinkInterval")
     (simp_all add: render_alarm_toggle render_alarm_wait)

text \<open>After an alarm call the last toggle is at most one interval old.\<close>

lemma since_toggle_render_alarm: "t - prevBlinkTime (render_alarm c t l) \<le> blinkInterval"
  by (cases "t - prevBlinkTime l > blinkInterval")
     (simp_all add: render_alarm_toggle render_alarm_wait)

subsection \<open>Arithmetic of the clock and of the map\<close>

lemma unat_add_small:
  fixes x :: uint32_t
  assumes "x \<le> 150" and "k \<le> 200"
  shows "unat (x + k) = unat x + unat k"
proof -
  have "unat x \<le> 150" and "unat k \<le> 200"
    using assms by (simp_all add: word_le_nat_alt)
  then show ?thesis
    by (simp add: unat_word_ariths)
qed

lemma word_later_50:
  fixes x :: uint32_t
  assumes "x \<le> 100"
  shows "\<not> x + 50 > 150"
proof -
  have "x \<le> 150"
    using assms by (simp add: word_le_nat_alt)
  then have "unat (x + 50) = unat x + 50"
    by (simp add: unat_add_small)
  then show ?thesis
    using assms by (simp add: word_less_nat_alt word_le_nat_alt)
qed

lemma word_later_200:
  fixes x :: uint32_t
  assumes "x \<le> 150"
  shows "x + 200 > 150"
proof -
  have "unat (x + 200) = unat x + 200"
    using assms by (simp add: unat_add_small)
  then show ?thesis
    by (simp add: word_less_nat_alt)
qed

lemma float_to_long_of_int: "float_to_long (of_int k) = k"
  by (simp add: float_to_long_def)

lemma float_to_long_ge: "of_int k \<le> v \<Longrightarrow> k \<le> float_to_long v"
  by (auto simp: float_to_long_def le_floor_iff le_ceiling_iff)

lemma cdiv_nonneg: "0 \<le> a \<Longrightarrow> 0 < b \<Longrightarrow> cdiv a b = a div b"
  by (cases "a = 0") (simp_all add: cdiv_def)

lemma long_to_int_small: "0 \<le> x \<Longrightarrow> x < 32768 \<Longrightarrow> long_to_int x = x"
  unfolding long_to_int_def by (simp add: sint_sbintrunc' signed_take_bit_int_eq_self)

lemma displayValueMapped_low: "displayValueMapped c (of_int (stagePT0 c)) = 0"
  by (simp add: displayValueMapped_def float_to_long_of_int map_long_def cdiv_def long_to_int_def)

text \<open>
  Between the stage points, and as long as the result fits an \<^verbatim>\<open>int\<close>, the mapped
  value is the linear map of the truncated reading, rounded down.
\<close>

lemma displayValueMapped_linear:
  assumes "of_int (stagePT0 c) \<le> v" and "stagePT0 c < stagePT1 c"
    and "(float_to_long v - stagePT0 c) * 16 div (stagePT1 c - stagePT0 c) < 32768"
  shows "displayValueMapped c v = (float_to_long v - stagePT0 c) * 16 div (stagePT1 c - stagePT0 c)"
proof -
  have ge: "0 \<le> float_to_long v - stagePT0 c"
    using float_to_long_ge [OF assms(1)] by simp
  then have "map_long (float_to_long v) (stagePT0 c) (stagePT1 c) 0 NUMNEOPIXELS
      = (float_to_long v - stagePT0 c) * 16 div (stagePT1 c - stagePT0 c)"
    using assms(2) by (simp add: map_long_def cdiv_nonneg NUMNEOPIXELS_def)
  moreover have "0 \<le> (float_to_long v - stagePT0 c) * 16 div (stagePT1 c - stagePT0 c)"
    using ge assms(2) by (simp add: pos_imp_zdiv_nonneg_iff)
  ultimately show ?thesis
    using assms(3) by (simp add: displayValueMapped_def long_to_int_small)
qed

lemma displayValueConstrained_bounds:
  "0 \<le> displayValueConstrained c v \<and> displayValueConstrained c v \<le> NUMNEOPIXELS"
  by (simp add: displayValueConstrained_def constrain_def NUMNEOPIXELS_def)

subsection \<open>The pixels an in-range call lights\<close>

lemma nth_pixels_render_in_range:
  assumes "prev_range l \<noteq> numOfLEDs c v" and "length (pixels (strip l)) = 16" and "k < 16"
  shows "pixels (strip (render_in_range c v l)) ! k =
     (if numOfLEDs c v \<le> int k then stage_color c (int k) else 0)"
  using assms
  by (simp add: strip_render_in_range strip_show_def nth_pixels_light_down_to pixels_clearLEDs
      NUMNEOPIXELS_def)

lemma length_pixels_render_in_range:
  assumes "prev_range l \<noteq> numOfLEDs c v" and "length (pixels (strip l)) = 16"
  shows "length (pixels (strip (render_in_range c v l))) = 16"
  using assms
  by (simp add: strip_render_in_range strip_show_def length_pixels_light_down_to pixels_clearLEDs)

lemma card_from: "n \<le> 15 \<Longrightarrow> card {k. k < 16 \<and> n \<le> int k} = nat (16 - max n 0)"
proof -
  assume "n \<le> 15"
  have "{k. k < 16 \<and> n \<le> int k} = {nat n ..< 16}"
    by auto
  then show ?thesis
    using \<open>n \<le> 15\<close> by simp
qed

lemma lit_pixels_render_in_range:
  assumes "prev_range l \<noteq> numOfLEDs c v" and "length (pixels (strip l)) = 16"
    and "color0 c \<noteq> 0" "color1 c \<noteq> 0" "color2 c \<noteq> 0"
  shows "lit_pixels (strip (render_in_range c v l))
      = nat (min (displayValueConstrained c v + 1) NUMNEOPIXELS)"
proof -
  let ?p = "pixels (strip (render_in_range c v l))"
  have len: "length ?p = 16"
    using assms by (simp add: length_pixels_render_in_range)
  have "lit_pixels (strip (render_in_range c v l)) = card {k. k < length ?p \<and> ?p ! k \<noteq> 0}"
    by (simp add: lit_pixels_def length_filter_conv_card)
  also have "{k. k < length ?p \<and> ?p ! k \<noteq> 0} = {k. k < 16 \<and> numOfLEDs c v \<le> int k}"
    using assms
    by (auto simp: len nth_pixels_render_in_range stage_color_nonzero split: if_splits)
  also have "card \<dots> = nat (16 - max (numOfLEDs c v) 0)"
    using displayValueConstrained_bounds [of c v]
    by (intro card_from) (simp add: numOfLEDs_def NUMNEOPIXELS_def)
  also have "\<dots> = nat (min (displayValueConstrained c v + 1) NUMNEOPIXELS)"
    using displayValueConstrained_bounds [of c v]
    by (simp add: numOfLEDs_def NUMNEOPIXELS_def)
  finally show ?thesis .
qed

text \<open>Evaluation of the sample configurations.\<close>

lemma tachometer_fields:
  "stagePT0 tachometer = 4200" "stagePT1 tachometer = 6200" "alarmOutsideRange tachometer"
  "ledStages1 tachometer = 5" "ledStages2 tachometer = 2"
  "color0 tachometer = Wheel 255" "color1 tachometer = Wheel 48" "color2 tachometer = Wheel 86"
  by (simp_all add: tachometer_def set_levels_def)

lemma coolant_gauge_fields:
  "stagePT0 coolant_gauge = 190" "stagePT1 coolant_gauge = 220"
  "\<not> alarmOutsideRange coolant_gauge"
  "color0 coolant_gauge = Wheel 0" "color1 coolant_gauge = Wheel 48"
  "color2 coolant_gauge = Wheel 86"
  by (simp_all add: coolant_gauge_def set_levels_def)

lemma led_initial:
  "prev_range (led initial) = 100" "warningState (led initial) = 0"
  "prevBlinkTime (led initial) = 0" "pixels (strip (led initial)) = replicate 16 0"
  "show_calls (strip (led initial)) = 0"
  by (simp_all add: initial_def)

lemmas numOfLEDs_eval =
  numOfLEDs_def displayValueConstrained_def displayValueMapped_def map_long_def cdiv_def
  float_to_long_def long_to_int_def constrain_def NUMNEOPIXELS_def

subsection \<open>The blink pattern and the full strip\<close>

lemma length_pixels_set_alternate: "length (pixels (set_alternate i c st)) = length (pixels st)"
  by (induction i c st rule: set_alternate.induct)
     (subst set_alternate.simps, simp add: pixels_setPixelColor)

lemma nth_pixels_set_alternate:
  "0 \<le> i \<Longrightarrow> k < length (pixels st) \<Longrightarrow>
   pixels (set_alternate i c st) ! k =
     (if i \<le> int k \<and> int k < NUMNEOPIXELS \<and> even (int k - i) then c else pixels st ! k)"
proof (induction i c st rule: set_alternate.induct)
  case (1 i c st)
  show ?case
  proof (cases "i < NUMNEOPIXELS")
    case True
    have "pixels (set_alternate i c st) ! k
        = pixels (set_alternate (i + 2) c (setPixelColor i c st)) ! k"
      using True by (subst set_alternate.simps) simp
    also have "\<dots> = (if i + 2 \<le> int k \<and> int k < NUMNEOPIXELS \<and> even (int k - (i + 2)) then c
                      else pixels (setPixelColor i c st) ! k)"
      using "1.IH" [OF True] "1.prems" by (simp add: pixels_setPixelColor)
    also have "\<dots> = (if i \<le> int k \<and> int k < NUMNEOPIXELS \<and> even (int k - i) then c
                      else pixels st ! k)"
    proof (cases "int k = i")
      case True
      then have k: "k = nat i"
        by simp
      show ?thesis
        unfolding k using \<open>i < NUMNEOPIXELS\<close> "1.prems"
        by (simp add: pixels_setPixelColor k)
    next
      case False
      then have ne: "nat i \<noteq> k"
        using "1.prems" by auto
      have "(i + 2 \<le> int k \<and> even (int k - (i + 2))) = (i \<le> int k \<and> even (int k - i))"
        using False by presburger
      then show ?thesis
        using ne by (auto simp: pixels_setPixelColor)
    qed
    finally show ?thesis .
  next
    case False
    then show ?thesis
      by (subst set_alternate.simps) auto
  qed
qed

lemma show_calls_light_down_to: "show_calls (light_down_to c n j st) = show_calls st"
  by (induction c n j st rule: light_down_to.induct)
     (subst light_down_to.simps, simp add: set_stage_color_eq show_calls_setPixelColor)

lemma blink_pattern:
  assumes "length (pixels st) = 16" and "k < 16"
  shows "pixels (set_alternate 1 0 (set_alternate 0 col st)) ! k = (if even k then col else 0)"
    and "pixels (set_alternate 0 0 (set_alternate 1 col st)) ! k = (if even k then 0 else col)"
  using assms
  by (auto simp: nth_pixels_set_alternate length_pixels_set_alternate NUMNEOPIXELS_def
      dest: odd_pos)

lemma displayValueMapped_high:
  assumes "stagePT0 c < stagePT1 c"
  shows "displayValueMapped c (of_int (stagePT1 c)) = 16"
proof -
  define a where "a = stagePT1 c - stagePT0 c"
  have "0 < a"
    using assms by (simp add: a_def)
  then have "cdiv (a * 16) a = 16"
    by (simp add: cdiv_nonneg)
  then have "map_long (stagePT1 c) (stagePT0 c) (stagePT1 c) 0 NUMNEOPIXELS = 16"
    unfolding map_long_def NUMNEOPIXELS_def a_def by simp
  then show ?thesis
    by (simp add: displayValueMapped_def float_to_long_of_int long_to_int_small)
qed

lemma render_in_range_frame:
  "warningState (render_in_range c v l) = warningState l"
  "prevBlinkTime (render_in_range c v l) = prevBlinkTime l"
  by (simp_all add: render_in_range_def Let_def)

lemma show_calls_render_in_range:
  "prev_range l \<noteq> numOfLEDs c v \<Longrightarrow>
   show_calls (strip (render_in_range c v l)) = show_calls (strip l) + 2"
  by (simp add: strip_render_in_range strip_show_def show_calls_light_down_to show_calls_clearLEDs)

subsection \<open>Claims about the LED ring renderer\<close>

text \<open>
  C3, as amended. An in-range call whose pixel index \<^verbatim>\<open>numOfLEDs\<close> differs from
  \<^verbatim>\<open>prev_range\<close> redraws the strip of 16 pixels; with the three stage colours not black
  (as every colour of \<open>Wheel\<close> is) it then lights the pixels from index
  \<open>pixelCount - 1 - c\<close> up, that is \<open>min (c + 1) pixelCount\<close> pixels, where \<open>c\<close> is the
  result of \<^verbatim>\<open>map\<close> on the reading without its fraction, clamped to \<open>[0, pixelCount]\<close>.
  For \<open>low < high\<close> and a result that fits an \<^verbatim>\<open>int\<close> the result of \<^verbatim>\<open>map\<close> is the
  linear map \<open>(x - low) * pixelCount div (high - low)\<close> of the reading \<open>x\<close> without its
  fraction. At \<open>value = low\<close> the clamped value is 0 and exactly one pixel is lit (the top
  one), not none; readings at or above \<open>high\<close> with the alarm disabled are in range and
  clamp to at most \<open>pixelCount\<close>.
\<close>

theorem in_range_lit_pixels:
  assumes "regime_of c v = InRange" and "prev_range l \<noteq> numOfLEDs c v"
    and "length (pixels (strip l)) = 16"
    and "color0 c \<noteq> 0" and "color1 c \<noteq> 0" and "color2 c \<noteq> 0"
  shows "lit_pixels (strip (ledStrip_update c v t l))
           = nat (min (displayValueConstrained c v + 1) NUMNEOPIXELS)
     \<and> (\<forall>k<16. (pixels (strip (ledStrip_update c v t l)) ! k \<noteq> 0)
                 = (NUMNEOPIXELS - 1 - displayValueConstrained c v \<le> int k))
     \<and> displayValueConstrained c v = constrain (displayValueMapped c v) 0 NUMNEOPIXELS
     \<and> 0 \<le> displayValueConstrained c v \<and> displayValueConstrained c v \<le> NUMNEOPIXELS
     \<and> (stagePT0 c < stagePT1 c
          \<and> (float_to_long v - stagePT0 c) * 16 div (stagePT1 c - stagePT0 c) < 32768
        \<longrightarrow> displayValueMapped c v
              = (float_to_long v - stagePT0 c) * 16 div (stagePT1 c - stagePT0 c))
     \<and> (v = of_int (stagePT0 c)
        \<longrightarrow> displayValueConstrained c v = 0
          \<and> lit_pixels (strip (ledStrip_update c v t l)) = 1)"
proof -
  have u: "ledStrip_update c v t l = render_in_range c v l"
    using assms(1) by (rule ledStrip_update_InRange)
  have lo: "of_int (stagePT0 c) \<le> v"
    using assms(1) by (simp add: regime_of_def split: if_splits)
  have lit: "lit_pixels (strip (render_in_range c v l))
           = nat (min (displayValueConstrained c v + 1) NUMNEOPIXELS)"
    using assms by (simp add: lit_pixels_render_in_range)
  have pat: "\<forall>k<16. (pixels (strip (render_in_range c v l)) ! k \<noteq> 0)
                 = (NUMNEOPIXELS - 1 - displayValueConstrained c v \<le> int k)"
    using assms by (simp add: nth_pixels_render_in_range stage_color_nonzero numOfLEDs_def)
  have lin: "stagePT0 c < stagePT1 c
          \<and> (float_to_long v - stagePT0 c) * 16 div (stagePT1 c - stagePT0 c) < 32768
        \<longrightarrow> displayValueMapped c v
              = (float_to_long v - stagePT0 c) * 16 div (stagePT1 c - stagePT0 c)"
    using lo by (simp add: displayValueMapped_linear)
  have low: "displayValueConstrained c v = 0 \<and> lit_pixels (strip (render_in_range c v l)) = 1"
    if "v = of_int (stagePT0 c)"
    using that lit
    by (simp add: displayValueConstrained_def displayValueMapped_low constrain_def
        NUMNEOPIXELS_def)
  show ?thesis
    unfolding u using lit pat lin low displayValueConstrained_bounds [of c v]
    by (simp add: displayValueConstrained_def)
qed

text \<open>
  C3 at concrete readings. The tachometer at 5100.5 rpm maps to 7 and lights 8 pixels; at 4200 rpm, its low stage
  point, it lights one. The coolant gauge, whose alarm is disabled, at 250 degrees (above
  its high stage point 220) clamps to 16 and lights all 16 pixels.
\<close>

theorem in_range_lit_pixels_witness:
  "regime_of tachometer (10201 / 2) = InRange
   \<and> displayValueMapped tachometer (10201 / 2) = 7
   \<and> lit_pixels (strip (ledStrip_update tachometer (10201 / 2) 1000 (led initial))) = 8
   \<and> pixels (strip (ledStrip_update tachometer (10201 / 2) 1000 (led initial))) ! 8 \<noteq> 0
   \<and> pixels (strip (ledStrip_update tachometer (10201 / 2) 1000 (led initial))) ! 7 = 0
   \<and> regime_of tachometer 4200 = InRange
   \<and> lit_pixels (strip (ledStrip_update tachometer 4200 1000 (led initial))) = 1
   \<and> regime_of coolant_gauge 250 = InRange
   \<and> displayValueConstrained coolant_gauge 250 = 16
   \<and> lit_pixels (strip (ledStrip_update coolant_gauge 250 1000 (led initial))) = 16"
proof -
  have r: "regime_of tachometer (10201 / 2) = InRange" "regime_of tachometer 4200 = InRange"
    "regime_of coolant_gauge 250 = InRange"
    by (simp_all add: regime_of_def tachometer_fields coolant_gauge_fields)
  have n: "prev_range (led initial) \<noteq> numOfLEDs tachometer (10201 / 2)"
    "prev_range (led initial) \<noteq> numOfLEDs tachometer 4200"
    "prev_range (led initial) \<noteq> numOfLEDs coolant_gauge 250"
    by (simp_all add: led_initial numOfLEDs_eval tachometer_fields coolant_gauge_fields)
  have len: "length (pixels (strip (led initial))) = 16"
    by (simp add: led_initial)
  have col: "color0 tachometer \<noteq> 0" "color1 tachometer \<noteq> 0" "color2 tachometer \<noteq> 0"
    by (simp_all add: tachometer_fields Wheel_nonzero)
  have col': "color0 coolant_gauge \<noteq> 0" "color1 coolant_gauge \<noteq> 0"
    "color2 coolant_gauge \<noteq> 0"
    by (simp_all add: coolant_gauge_fields Wheel_nonzero)
  have m: "displayValueConstrained tachometer (10201 / 2) = 7"
    "displayValueMapped tachometer (10201 / 2) = 7"
    "displayValueConstrained coolant_gauge 250 = 16"
    by (simp_all add: numOfLEDs_eval tachometer_fields coolant_gauge_fields)
  note at_5100 = in_range_lit_pixels [OF r(1) n(1) len col, of 1000]
  note at_4200 = in_range_lit_pixels [OF r(2) n(2) len col, of 1000]
  note at_250 = in_range_lit_pixels [OF r(3) n(3) len col', of 1000]
  have lit: "lit_pixels (strip (ledStrip_update tachometer (10201 / 2) 1000 (led initial))) = 8"
    using at_5100 by (simp add: m NUMNEOPIXELS_def)
  have "\<forall>k<16. (pixels (strip (ledStrip_update tachometer (10201 / 2) 1000 (led initial))) ! k \<noteq> 0)
      = (8 \<le> int k)"
    using at_5100 by (simp add: m NUMNEOPIXELS_def)
  then have at_k: "(pixels (strip (ledStrip_update tachometer (10201 / 2) 1000 (led initial))) ! k \<noteq> 0)
      = (8 \<le> int k)" if "k < 16" for k
    using that by blast
  have pix:
    "pixels (strip (ledStrip_update tachometer (10201 / 2) 1000 (led initial))) ! 8 \<noteq> 0"
    "pixels (strip (ledStrip_update tachometer (10201 / 2) 1000 (led initial))) ! 7 = 0"
    using at_k [of 8] at_k [of 7] by simp_all
  have "4200 = real_of_int (stagePT0 tachometer)"
    by (simp add: tachometer_fields)
  with at_4200 have low:
    "lit_pixels (strip (ledStrip_update tachometer 4200 1000 (led initial))) = 1"
    by blast
  have all: "lit_pixels (strip (ledStrip_update coolant_gauge 250 1000 (led initial))) = 16"
    using at_250 by (simp add: m NUMNEOPIXELS_def)
  show ?thesis
    using r m lit pix low all by simp
qed

text \<open>
  C3 as stated fails: at 4200 rpm, the low stage point of the tachometer, the call
  is in range and leaves one pixel lit, not none.
\<close>

theorem in_range_low_counterexample:
  "4200 = real_of_int (stagePT0 tachometer)
   \<and> regime_of tachometer 4200 = InRange
   \<and> lit_pixels (strip (ledStrip_update tachometer 4200 1000 (led initial))) = 1
   \<and> lit_pixels (strip (ledStrip_update tachometer 4200 1000 (led initial))) \<noteq> 0"
proof -
  have r: "regime_of tachometer 4200 = InRange"
    by (simp add: regime_of_def tachometer_fields)
  have n: "prev_range (led initial) \<noteq> numOfLEDs tachometer 4200"
    by (simp add: led_initial numOfLEDs_eval tachometer_fields)
  have "lit_pixels (strip (render_in_range tachometer 4200 (led initial))) = 1"
    using n by (simp add: lit_pixels_render_in_range led_initial tachometer_fields Wheel_nonzero
        numOfLEDs_eval)
  then show ?thesis
    using r by (simp add: ledStrip_update_InRange tachometer_fields)
qed

text \<open>
  C5. Of two consecutive in-range calls whose readings give the same pixel index
  \<^verbatim>\<open>numOfLEDs\<close>, the second leaves the renderer state as it is: no pixel is written and
  nothing is committed. Of two consecutive below-range calls the second leaves the state as
  it is too, \<^verbatim>\<open>prev_range\<close> holding the mark 100 after the first, so that the two calls
  clear and commit at most once.
\<close>

theorem renderer_debounce:
  "(regime_of c1 v1 = InRange \<and> regime_of c2 v2 = InRange \<and> numOfLEDs c1 v1 = numOfLEDs c2 v2
      \<longrightarrow> ledStrip_update c2 v2 t2 (ledStrip_update c1 v1 t1 l) = ledStrip_update c1 v1 t1 l)
   \<and> (regime_of c1 v1 = BelowRange \<and> regime_of c2 v2 = BelowRange
      \<longrightarrow> prev_range (ledStrip_update c1 v1 t1 l) = 100
        \<and> ledStrip_update c2 v2 t2 (ledStrip_update c1 v1 t1 l) = ledStrip_update c1 v1 t1 l
        \<and> show_calls (strip (ledStrip_update c2 v2 t2 (ledStrip_update c1 v1 t1 l)))
            \<le> show_calls (strip l) + 1)"
proof (intro conjI impI; elim conjE)
  assume r: "regime_of c1 v1 = InRange" "regime_of c2 v2 = InRange"
    and n: "numOfLEDs c1 v1 = numOfLEDs c2 v2"
  have "prev_range (render_in_range c1 v1 l) = numOfLEDs c2 v2"
    by (simp add: prev_range_render_in_range n)
  then show "ledStrip_update c2 v2 t2 (ledStrip_update c1 v1 t1 l) = ledStrip_update c1 v1 t1 l"
    by (simp add: ledStrip_update_InRange r render_in_range_same)
next
  assume r: "regime_of c1 v1 = BelowRange" "regime_of c2 v2 = BelowRange"
  show "prev_range (ledStrip_update c1 v1 t1 l) = 100"
    by (simp add: ledStrip_update_BelowRange r prev_range_render_below)
  show same: "ledStrip_update c2 v2 t2 (ledStrip_update c1 v1 t1 l) = ledStrip_update c1 v1 t1 l"
    by (simp add: ledStrip_update_BelowRange r render_below_same prev_range_render_below)
  show "show_calls (strip (ledStrip_update c2 v2 t2 (ledStrip_update c1 v1 t1 l)))
            \<le> show_calls (strip l) + 1"
    unfolding same using show_calls_render_below [of l]
    by (simp add: ledStrip_update_BelowRange r)
qed

text \<open>
  C5 at concrete readings: the tachometer at 5000 and 5050 rpm (both pixel index 9), and
  at 1000 and 2000 rpm (both below range) after a reading that had lit the strip.
\<close>

theorem renderer_debounce_witness:
  "numOfLEDs tachometer 5000 = 9 \<and> numOfLEDs tachometer 5050 = 9
   \<and> ledStrip_update tachometer 5050 20 (ledStrip_update tachometer 5000 10 (led initial))
       = ledStrip_update tachometer 5000 10 (led initial)
   \<and> show_calls (strip (ledStrip_update tachometer 5000 10 (led initial))) = 2
   \<and> regime_of tachometer 1000 = BelowRange \<and> regime_of tachometer 2000 = BelowRange
   \<and> ledStrip_update tachometer 2000 40
        (ledStrip_update tachometer 1000 30 (ledStrip_update tachometer 5000 10 (led initial)))
       = ledStrip_update tachometer 1000 30 (ledStrip_update tachometer 5000 10 (led initial))
   \<and> show_calls (strip (ledStrip_update tachometer 2000 40
        (ledStrip_update tachometer 1000 30 (ledStrip_update tachometer 5000 10 (led initial)))))
       = 3"
proof -
  have r: "regime_of tachometer 5000 = InRange" "regime_of tachometer 5050 = InRange"
    "regime_of tachometer 1000 = BelowRange" "regime_of tachometer 2000 = BelowRange"
    by (simp_all add: regime_of_def tachometer_fields)
  have n: "numOfLEDs tachometer 5000 = 9" "numOfLEDs tachometer 5050 = 9"
    by (simp_all add: numOfLEDs_eval tachometer_fields)
  have s: "show_calls (strip (ledStrip_update tachometer 5000 10 (led initial))) = 2"
    "show_calls (strip (ledStrip_update tachometer 1000 30
        (ledStrip_update tachometer 5000 10 (led initial)))) = 3"
    by code_simp+
  show ?thesis
    using renderer_debounce [of tachometer 5000 tachometer 5050 20 10 "led initial"]
      renderer_debounce [of tachometer 1000 tachometer 2000 40 30
        "ledStrip_update tachometer 5000 10 (led initial)"]
    by (simp add: r n s)
qed

text \<open>
  C6, as amended. In the alarm regime the blink bit \<^verbatim>\<open>warningState\<close> toggles exactly when
  more than 150 ms of the millisecond clock have passed since the time stamp of the last
  toggle, so only when at least 150 ms have; a toggle moves the time stamp to the clock.
  The interval runs from that stamp, not from the call before. When the first of two alarm
  calls leaves the stamp at most 100 ms old, as it does when it toggles, an alarm call
  50 ms later changes nothing at all. With the clock at the stamp for the first call (as on
  a start with the clock at 0), two alarm calls 50 ms apart give no toggle and two alarm
  calls 200 ms apart give exactly one. An alarm call 200 ms after any alarm call toggles
  the bit once and commits the strip once.
\<close>

theorem blink_timing:
  assumes "regime_of c v = Alarm" and "regime_of c' v' = Alarm"
  shows "(warningState (ledStrip_update c v t l) \<noteq> warningState l) = (t - prevBlinkTime l > 150)
    \<and> (warningState (ledStrip_update c v t l) \<noteq> warningState l
          \<longrightarrow> unat (t - prevBlinkTime l) \<ge> 150 \<and> prevBlinkTime (ledStrip_update c v t l) = t)
    \<and> (t - prevBlinkTime (ledStrip_update c v t l) \<le> 100
          \<longrightarrow> ledStrip_update c' v' (t + 50) (ledStrip_update c v t l) = ledStrip_update c v t l)
    \<and> (warningState (ledStrip_update c v t l) \<noteq> warningState l
          \<longrightarrow> ledStrip_update c' v' (t + 50) (ledStrip_update c v t l) = ledStrip_update c v t l)
    \<and> (prevBlinkTime l = t
          \<longrightarrow> warningState (ledStrip_update c v t l) = warningState l
            \<and> warningState (ledStrip_update c' v' (t + 50) (ledStrip_update c v t l))
                = warningState l
            \<and> warningState (ledStrip_update c' v' (t + 200) (ledStrip_update c v t l))
                = (if warningState l = 0 then 1 else 0))
    \<and> warningState (ledStrip_update c' v' (t + 200) (ledStrip_update c v t l))
          = (if warningState (ledStrip_update c v t l) = 0 then 1 else 0)
    \<and> show_calls (strip (ledStrip_update c' v' (t + 200) (ledStrip_update c v t l)))
          = show_calls (strip (ledStrip_update c v t l)) + 1"
proof -
  define l1 where "l1 = render_alarm c t l"
  have u1: "ledStrip_update c v t l = l1"
    by (simp add: l1_def ledStrip_update_Alarm assms)
  have p8: "prev_range l1 = 8"
    by (simp add: l1_def prev_range_render_alarm)
  have a: "(warningState l1 \<noteq> warningState l) = (t - prevBlinkTime l > 150)"
    using warningState_render_alarm [of c t l] by (simp add: l1_def blinkInterval_def)
  have a': "unat (t - prevBlinkTime l) \<ge> 150 \<and> prevBlinkTime l1 = t"
    if "warningState l1 \<noteq> warningState l"
  proof -
    from that a have late: "t - prevBlinkTime l > blinkInterval"
      by (simp add: blinkInterval_def)
    then have "unat (t - prevBlinkTime l) \<ge> 150"
      by (simp add: blinkInterval_def word_less_nat_alt)
    then show ?thesis
      by (simp add: l1_def render_alarm_toggle [OF late])
  qed
  have b: "ledStrip_update c' v' (t + 50) l1 = l1" if "t - prevBlinkTime l1 \<le> 100"
  proof -
    have eq: "t + 50 - prevBlinkTime l1 = (t - prevBlinkTime l1) + 50"
      by simp
    have "\<not> t + 50 - prevBlinkTime l1 > blinkInterval"
      unfolding blinkInterval_def eq by (rule word_later_50 [OF that])
    then show ?thesis
      using p8 by (simp add: ledStrip_update_Alarm assms render_alarm_wait)
  qed
  have b': "ledStrip_update c' v' (t + 50) l1 = l1" if "warningState l1 \<noteq> warningState l"
    using a' [OF that] by (intro b) simp
  have "t - prevBlinkTime l1 \<le> 150"
    using since_toggle_render_alarm [of t c l] by (simp add: l1_def blinkInterval_def)
  then have "(t - prevBlinkTime l1) + 200 > 150"
    by (rule word_later_200)
  moreover have "t + 200 - prevBlinkTime l1 = (t - prevBlinkTime l1) + 200"
    by simp
  ultimately have late: "t + 200 - prevBlinkTime l1 > blinkInterval"
    unfolding blinkInterval_def by (simp only:)
  have c: "warningState (ledStrip_update c' v' (t + 200) l1)
      = (if warningState l1 = 0 then 1 else 0)"
    by (simp add: ledStrip_update_Alarm assms render_alarm_toggle [OF late])
  have d: "show_calls (strip (ledStrip_update c' v' (t + 200) l1)) = show_calls (strip l1) + 1"
    by (simp add: ledStrip_update_Alarm assms render_alarm_toggle [OF late] strip_show_def
        show_calls_set_alternate)
  have e: "warningState l1 = warningState l
      \<and> warningState (ledStrip_update c' v' (t + 50) l1) = warningState l
      \<and> warningState (ledStrip_update c' v' (t + 200) l1) = (if warningState l = 0 then 1 else 0)"
    if "prevBlinkTime l = t"
  proof -
    have still: "l1 = l\<lparr>prev_range := 8\<rparr>"
      using that by (simp add: l1_def render_alarm_wait blinkInterval_def)
    then have "t - prevBlinkTime l1 \<le> 100"
      using that by simp
    then have "ledStrip_update c' v' (t + 50) l1 = l1"
      by (rule b)
    then show ?thesis
      using c still by simp
  qed
  show ?thesis
    unfolding u1 using a a' b b' c d e by blast
qed

text \<open>
  C6 at concrete readings: the tachometer at 7000 rpm. From the initial state with the clock at 0, calls at 0 and
  50 ms do not toggle and a call at 200 ms toggles once. With the clock at 1000 ms the
  first call toggles, a call at 1050 ms changes nothing, a call at 1200 ms toggles back.
\<close>

theorem blink_timing_witness:
  "regime_of tachometer 7000 = Alarm
   \<and> warningState (led initial) = 0 \<and> prevBlinkTime (led initial) = 0
   \<and> warningState (ledStrip_update tachometer 7000 0 (led initial)) = 0
   \<and> warningState
        (ledStrip_update tachometer 7000 50 (ledStrip_update tachometer 7000 0 (led initial)))
       = 0
   \<and> warningState
        (ledStrip_update tachometer 7000 200 (ledStrip_update tachometer 7000 0 (led initial)))
       = 1
   \<and> warningState (ledStrip_update tachometer 7000 1000 (led initial)) = 1
   \<and> prevBlinkTime (ledStrip_update tachometer 7000 1000 (led initial)) = 1000
   \<and> ledStrip_update tachometer 7000 1050 (ledStrip_update tachometer 7000 1000 (led initial))
       = ledStrip_update tachometer 7000 1000 (led initial)
   \<and> warningState
        (ledStrip_update tachometer 7000 1200 (ledStrip_update tachometer 7000 1000 (led initial)))
       = 0
   \<and> show_calls (strip
        (ledStrip_update tachometer 7000 1200 (ledStrip_update tachometer 7000 1000 (led initial))))
       = 2"
proof -
  have r: "regime_of tachometer 7000 = Alarm"
    by (simp add: regime_of_def tachometer_fields)
  have w: "warningState (ledStrip_update tachometer 7000 1000 (led initial)) = 1"
    "prevBlinkTime (ledStrip_update tachometer 7000 1000 (led initial)) = 1000"
    "show_calls (strip (ledStrip_update tachometer 7000 1000 (led initial))) = 1"
    by (simp_all add: ledStrip_update_Alarm r render_alarm_def led_initial blinkInterval_def
        Let_def strip_show_def show_calls_set_alternate)
  show ?thesis
    using blink_timing [OF r r, of 1000 "led initial"] blink_timing [OF r r, of 0 "led initial"]
    by (simp add: r w led_initial)
qed

text \<open>
  C6 as stated fails: two alarm calls 50 ms apart can produce a toggle. The tachometer at
  7000 rpm toggles at 1000 ms; the alarm call at 1120 ms comes 120 ms after that toggle and
  does not toggle; the alarm call at 1170 ms, 50 ms later, comes 170 ms after the toggle
  and toggles.
\<close>

theorem blink_timing_counterexample:
  "regime_of tachometer 7000 = Alarm
   \<and> (1170 :: uint32_t) - 1120 = 50
   \<and> warningState (ledStrip_update tachometer 7000 1000 (led initial)) = 1
   \<and> prevBlinkTime (ledStrip_update tachometer 7000 1000 (led initial)) = 1000
   \<and> warningState
        (ledStrip_update tachometer 7000 1120 (ledStrip_update tachometer 7000 1000 (led initial)))
       = 1
   \<and> warningState
        (ledStrip_update tachometer 7000 1170
          (ledStrip_update tachometer 7000 1120
            (ledStrip_update tachometer 7000 1000 (led initial))))
       = 0
   \<and> warningState
        (ledStrip_update tachometer 7000 1170
          (ledStrip_update tachometer 7000 1120
            (ledStrip_update tachometer 7000 1000 (led initial))))
       \<noteq> warningState
        (ledStrip_update tachometer 7000 1120 (ledStrip_update tachometer 7000 1000 (led initial)))"
proof -
  have r: "regime_of tachometer 7000 = Alarm"
    by (simp add: regime_of_def tachometer_fields)
  show ?thesis
    by (simp add: r ledStrip_update_Alarm render_alarm_def Let_def blinkInterval_def led_initial)
qed

text \<open>
  C7. A reading equal to the high stage point (and not below the low one) is handled by
  the alarm regime when \<^verbatim>\<open>alarmOutsideRange\<close> is set: the call leaves 8 in
  \<^verbatim>\<open>prev_range\<close>, and it toggles the blink bit exactly when more than 150 ms have passed
  since the last toggle; it then moves the time stamp to the clock, commits once and leaves
  the alternating pattern of \<^verbatim>\<open>color[2]\<close> and dark pixels on a strip of 16, and
  otherwise it leaves the strip alone. When \<^verbatim>\<open>alarmOutsideRange\<close> is not set the reading
  is handled by the in-range regime, the upper bound included: the call leaves the pixel
  index of the reading in \<^verbatim>\<open>prev_range\<close> and the blink bit and its time stamp as they
  are; for \<open>low < high\<close> the reading clamps to \<open>pixelCount\<close>, the index is \<open>-1\<close>, and
  a call that finds another index in \<^verbatim>\<open>prev_range\<close> lights all 16 pixels with two
  commits (one of \<^verbatim>\<open>clearLEDs\<close>, one of the redraw).
\<close>

theorem high_threshold_tie_break:
  assumes "v = of_int (stagePT1 c)" and "v \<ge> of_int (stagePT0 c)"
  shows "(alarmOutsideRange c \<longrightarrow>
        regime_of c v = Alarm
      \<and> prev_range (ledStrip_update c v t l) = 8
      \<and> (warningState (ledStrip_update c v t l) \<noteq> warningState l) = (t - prevBlinkTime l > 150)
      \<and> (t - prevBlinkTime l > 150 \<longrightarrow>
            prevBlinkTime (ledStrip_update c v t l) = t
          \<and> warningState (ledStrip_update c v t l) = (if warningState l = 0 then 1 else 0)
          \<and> show_calls (strip (ledStrip_update c v t l)) = show_calls (strip l) + 1
          \<and> (length (pixels (strip l)) = 16 \<longrightarrow>
               (\<forall>k<16. pixels (strip (ledStrip_update c v t l)) ! k
                  = (if even k = (warningState l = 0) then color2 c else 0))))
      \<and> (\<not> t - prevBlinkTime l > 150 \<longrightarrow> strip (ledStrip_update c v t l) = strip l))
    \<and> (\<not> alarmOutsideRange c \<longrightarrow>
        regime_of c v = InRange
      \<and> prev_range (ledStrip_update c v t l) = numOfLEDs c v
      \<and> warningState (ledStrip_update c v t l) = warningState l
      \<and> prevBlinkTime (ledStrip_update c v t l) = prevBlinkTime l
      \<and> (stagePT0 c < stagePT1 c \<longrightarrow>
            displayValueConstrained c v = NUMNEOPIXELS
          \<and> numOfLEDs c v = - 1
          \<and> (prev_range l \<noteq> - 1 \<and> length (pixels (strip l)) = 16
               \<and> color0 c \<noteq> 0 \<and> color1 c \<noteq> 0 \<and> color2 c \<noteq> 0 \<longrightarrow>
                 lit_pixels (strip (ledStrip_update c v t l)) = 16
               \<and> show_calls (strip (ledStrip_update c v t l)) = show_calls (strip l) + 2)))"
proof (intro conjI impI)
  assume on: "alarmOutsideRange c"
  show r: "regime_of c v = Alarm"
    using assms on by (simp add: regime_of_def)
  note u = ledStrip_update_Alarm [OF r]
  show "prev_range (ledStrip_update c v t l) = 8"
    by (simp add: u prev_range_render_alarm)
  show "(warningState (ledStrip_update c v t l) \<noteq> warningState l) = (t - prevBlinkTime l > 150)"
    using warningState_render_alarm [of c t l] by (simp add: u blinkInterval_def)
  {
    assume "t - prevBlinkTime l > 150"
    then have late: "t - prevBlinkTime l > blinkInterval"
      by (simp add: blinkInterval_def)
    note tg = render_alarm_toggle [OF late, of c]
    show "prevBlinkTime (ledStrip_update c v t l) = t"
      by (simp add: u tg)
    show "warningState (ledStrip_update c v t l) = (if warningState l = 0 then 1 else 0)"
      by (simp add: u tg)
    show "show_calls (strip (ledStrip_update c v t l)) = show_calls (strip l) + 1"
      by (simp add: u tg strip_show_def show_calls_set_alternate)
    {
      assume len: "length (pixels (strip l)) = 16"
      show "\<forall>k<16. pixels (strip (ledStrip_update c v t l)) ! k
                  = (if even k = (warningState l = 0) then color2 c else 0)"
        by (simp add: u tg strip_show_def blink_pattern [OF len])
    }
  }
  {
    assume "\<not> t - prevBlinkTime l > 150"
    then have "\<not> t - prevBlinkTime l > blinkInterval"
      by (simp add: blinkInterval_def)
    then show "strip (ledStrip_update c v t l) = strip l"
      by (simp add: u render_alarm_wait)
  }
next
  assume off: "\<not> alarmOutsideRange c"
  show r: "regime_of c v = InRange"
    using assms off by (simp add: regime_of_def)
  note u = ledStrip_update_InRange [OF r]
  show "prev_range (ledStrip_update c v t l) = numOfLEDs c v"
    by (simp add: u prev_range_render_in_range)
  show "warningState (ledStrip_update c v t l) = warningState l"
    by (simp add: u render_in_range_frame)
  show "prevBlinkTime (ledStrip_update c v t l) = prevBlinkTime l"
    by (simp add: u render_in_range_frame)
  {
    assume lt: "stagePT0 c < stagePT1 c"
    show full: "displayValueConstrained c v = NUMNEOPIXELS"
      using displayValueMapped_high [OF lt] assms(1)
      by (simp add: displayValueConstrained_def constrain_def NUMNEOPIXELS_def)
    then show idx: "numOfLEDs c v = - 1"
      by (simp add: numOfLEDs_def)
    {
      assume "prev_range l \<noteq> - 1 \<and> length (pixels (strip l)) = 16
               \<and> color0 c \<noteq> 0 \<and> color1 c \<noteq> 0 \<and> color2 c \<noteq> 0"
      then have h: "prev_range l \<noteq> numOfLEDs c v" "length (pixels (strip l)) = 16"
        "color0 c \<noteq> 0" "color1 c \<noteq> 0" "color2 c \<noteq> 0"
        by (simp_all add: idx)
      show "lit_pixels (strip (ledStrip_update c v t l)) = 16"
        using lit_pixels_render_in_range [OF h] by (simp add: u full NUMNEOPIXELS_def)
      show "show_calls (strip (ledStrip_update c v t l)) = show_calls (strip l) + 2"
        by (simp add: u show_calls_render_in_range [OF h(1)])
    }
  }
qed

text \<open>
  C7 at concrete readings: the tachometer (alarm set) at 6200 rpm and 1000 ms takes the
  alarm regime, toggles and shows the alternating pattern; the coolant gauge (alarm not
  set) at 220 degrees takes the in-range regime and lights the whole strip.
\<close>

theorem high_threshold_tie_break_witness:
  "alarmOutsideRange tachometer \<and> regime_of tachometer 6200 = Alarm
   \<and> prev_range (ledStrip_update tachometer 6200 1000 (led initial)) = 8
   \<and> warningState (ledStrip_update tachometer 6200 1000 (led initial)) = 1
   \<and> show_calls (strip (ledStrip_update tachometer 6200 1000 (led initial))) = 1
   \<and> pixels (strip (ledStrip_update tachometer 6200 1000 (led initial))) ! 0 = Wheel 86
   \<and> pixels (strip (ledStrip_update tachometer 6200 1000 (led initial))) ! 1 = 0
   \<and> \<not> alarmOutsideRange coolant_gauge \<and> regime_of coolant_gauge 220 = InRange
   \<and> prev_range (ledStrip_update coolant_gauge 220 1000 (led initial)) = - 1
   \<and> warningState (ledStrip_update coolant_gauge 220 1000 (led initial)) = 0
   \<and> lit_pixels (strip (ledStrip_update coolant_gauge 220 1000 (led initial))) = 16
   \<and> show_calls (strip (ledStrip_update coolant_gauge 220 1000 (led initial))) = 2"
proof -
  have late: "(1000 :: uint32_t) - prevBlinkTime (led initial) > 150"
    by (simp add: led_initial)
  have len: "length (pixels (strip (led initial))) = 16"
    by (simp add: led_initial)
  have tie: "6200 = real_of_int (stagePT1 tachometer)"
    "(6200 :: real) \<ge> of_int (stagePT0 tachometer)"
    "220 = real_of_int (stagePT1 coolant_gauge)"
    "(220 :: real) \<ge> of_int (stagePT0 coolant_gauge)"
    by (simp_all add: tachometer_fields coolant_gauge_fields)
  note on = high_threshold_tie_break [OF tie(1) tie(2), of 1000 "led initial"]
  note off = high_threshold_tie_break [OF tie(3) tie(4), of 1000 "led initial"]
  have a: "regime_of tachometer 6200 = Alarm"
    "prev_range (ledStrip_update tachometer 6200 1000 (led initial)) = 8"
    "warningState (ledStrip_update tachometer 6200 1000 (led initial)) = 1"
    "show_calls (strip (ledStrip_update tachometer 6200 1000 (led initial))) = 1"
    using on late by (simp_all add: tachometer_fields led_initial)
  have "\<forall>k<16. pixels (strip (ledStrip_update tachometer 6200 1000 (led initial))) ! k
      = (if even k then Wheel 86 else 0)"
    using on late len by (simp add: tachometer_fields led_initial)
  then have at_k: "pixels (strip (ledStrip_update tachometer 6200 1000 (led initial))) ! k
      = (if even k then Wheel 86 else 0)" if "k < 16" for k
    using that by blast
  have p: "pixels (strip (ledStrip_update tachometer 6200 1000 (led initial))) ! 0 = Wheel 86"
    "pixels (strip (ledStrip_update tachometer 6200 1000 (led initial))) ! 1 = 0"
    using at_k [of 0] at_k [of 1] by simp_all
  have col: "color0 coolant_gauge \<noteq> 0 \<and> color1 coolant_gauge \<noteq> 0 \<and> color2 coolant_gauge \<noteq> 0"
    by (simp add: coolant_gauge_fields Wheel_nonzero)
  have b: "regime_of coolant_gauge 220 = InRange"
    "prev_range (ledStrip_update coolant_gauge 220 1000 (led initial)) = - 1"
    "warningState (ledStrip_update coolant_gauge 220 1000 (led initial)) = 0"
    "lit_pixels (strip (ledStrip_update coolant_gauge 220 1000 (led initial))) = 16"
    "show_calls (strip (ledStrip_update coolant_gauge 220 1000 (led initial))) = 2"
    using off col len by (simp_all add: coolant_gauge_fields led_initial)
  show ?thesis
    using a p b by (simp add: tachometer_fields coolant_gauge_fields)
qed



subsection \<open>Claims about the display updater\<close>

lemma OLED_update_unchanged: "lastDisplayValue d = v \<Longrightarrow> OLED_update v w p lbl t d = d"
  by (simp add: OLED_update_def)

lemma OLED_update_held:
  "lastDisplayValue d \<noteq> v \<Longrightarrow> \<not> t - prevDispTime d > dispInterval \<Longrightarrow>
   OLED_update v w p lbl t d = d\<lparr>lastDisplayValue := v\<rparr>"
  by (simp add: OLED_update_def Let_def)

lemma OLED_update_drawn:
  "lastDisplayValue d \<noteq> v \<Longrightarrow> t - prevDispTime d > dispInterval \<Longrightarrow>
   OLED_update v w p lbl t d =
     d\<lparr>lastDisplayValue := v, prevDispTime := t, oled := oled d @ [Reading lbl v w p]\<rparr>"
  by (simp add: OLED_update_def Let_def)

lemma oled_OLED_update:
  "oled (OLED_update v w p lbl t d) = oled d
   \<or> oled (OLED_update v w p lbl t d) = oled d @ [Reading lbl v w p]"
  by (simp add: OLED_update_def Let_def)

text \<open>
  C1. The claim expects the latest value to be drawn once the 100 ms interval is over.
  \<^verbatim>\<open>OLED_update\<close> remembers the value before it tests the interval, so a changed
  value that comes within 100 ms of the last redraw and then stays is never drawn.
  After 5 was drawn at 1000 ms, the changed values 6 at 1010 ms and 7 at 1020 ms are not
  drawn, and 7 passed again at 1500 ms and at 60000 ms is not drawn either: the calls give
  no redraw, and the screen keeps the 5 while the remembered value is 7.
\<close>

theorem OLED_update_keeps_stale_value:
  "OLED_update 5 4 0 ''RPM'' 1000 (disp initial) = drawn_5
   \<and> oled drawn_5 = [Reading ''RPM'' 5 4 0]
   \<and> oled (OLED_update 7 4 0 ''RPM'' 1020 (OLED_update 6 4 0 ''RPM'' 1010 drawn_5))
       = [Reading ''RPM'' 5 4 0]
   \<and> oled (OLED_update 7 4 0 ''RPM'' 1500
        (OLED_update 7 4 0 ''RPM'' 1020 (OLED_update 6 4 0 ''RPM'' 1010 drawn_5)))
       = [Reading ''RPM'' 5 4 0]
   \<and> oled (OLED_update 7 4 0 ''RPM'' 60000
        (OLED_update 7 4 0 ''RPM'' 1500
          (OLED_update 7 4 0 ''RPM'' 1020 (OLED_update 6 4 0 ''RPM'' 1010 drawn_5))))
       = [Reading ''RPM'' 5 4 0]
   \<and> lastDisplayValue (OLED_update 7 4 0 ''RPM'' 1020 (OLED_update 6 4 0 ''RPM'' 1010 drawn_5))
       = 7"
  by (simp add: OLED_update_def initial_def drawn_5_def dispInterval_def)

subsection \<open>Claims about the button and the modes\<close>

lemma gaugeType_handle_button:
  "gaugeType (handle_button pin s) =
     (if \<not> pin \<and> \<not> button_was_pressed s
      then (if gaugeType s \<ge> 8 then 1 else gaugeType s + 1) else gaugeType s)"
  by (simp add: handle_button_def Let_def)

lemma button_was_pressed_handle_button:
  "button_was_pressed (handle_button pin s) = (\<not> pin)"
  by (simp add: handle_button_def Let_def)

lemma handle_button_frame:
  "cfg (handle_button pin s) = cfg s" "led (handle_button pin s) = led s"
  "disp (handle_button pin s) = disp s"
  by (simp_all add: handle_button_def Let_def)

lemma show_gauge_frame:
  "gaugeType (show_gauge inp v w p lbl s) = gaugeType s"
  "button_was_pressed (show_gauge inp v w p lbl s) = button_was_pressed s"
  "cfg (show_gauge inp v w p lbl s) = cfg s"
  "oled (disp (show_gauge inp v w p lbl s)) = oled (OLED_update v w p lbl (millis_OLED inp) (disp s))"
  by (simp_all add: show_gauge_def Let_def)

lemma show_no_data_frame:
  "gaugeType (show_no_data s) = gaugeType s"
  "button_was_pressed (show_no_data s) = button_was_pressed s"
  "cfg (show_no_data s) = cfg s" "led (show_no_data s) = led s"
  "oled (disp (show_no_data s)) = oled (disp s) @ [NoData]"
  by (simp_all add: show_no_data_def)

lemma gaugeType_gauge: "gaugeType (gauge inp s) = gaugeType s"
  by (simp add: gauge_def Let_def show_gauge_frame show_no_data_frame)

lemma button_was_pressed_gauge: "button_was_pressed (gauge inp s) = button_was_pressed s"
  by (simp add: gauge_def Let_def show_gauge_frame show_no_data_frame)

lemma gaugeType_loop:
  "gaugeType (loop inp s) =
     (if \<not> digitalRead inp \<and> \<not> button_was_pressed s
      then (if gaugeType s \<ge> 8 then 1 else gaugeType s + 1) else gaugeType s)"
  by (simp add: loop_def gaugeType_handle_button gaugeType_gauge button_was_pressed_gauge)

lemma button_was_pressed_loop: "button_was_pressed (loop inp s) = (\<not> digitalRead inp)"
  by (simp add: loop_def button_was_pressed_handle_button)

lemma run_mode_range:
  "1 \<le> gaugeType s \<Longrightarrow> gaugeType s \<le> 8 \<Longrightarrow>
   1 \<le> gaugeType (run inps s) \<and> gaugeType (run inps s) \<le> 8"
  by (induction inps arbitrary: s) (simp_all add: gaugeType_loop)

lemma run_held:
  "button_was_pressed s \<Longrightarrow> \<forall>inp \<in> set inps. \<not> digitalRead inp \<Longrightarrow>
   gaugeType (run inps s) = gaugeType s"
  by (induction inps arbitrary: s) (simp_all add: gaugeType_loop button_was_pressed_loop)

text \<open>
  C10. A pass of \<^verbatim>\<open>loop\<close> changes the mode only on a rising edge of the button: the pin
  reads pressed (low) in this pass and the flag \<^verbatim>\<open>button_was_pressed\<close>, which every pass
  sets to its own sample, says unpressed; so of two passes in a row the second changes the
  mode only when the pin read unpressed in the first and pressed in the second. The flag
  starts true, so over any run of passes from the initial state in which the button reads
  pressed throughout the mode stays at its initial value 1. On an edge the mode goes up by
  one, from 8 back to 1; from the initial state it is always within 1..8.
\<close>

theorem mode_advances_on_rising_edge:
  "(gaugeType (loop inp s) \<noteq> gaugeType s \<longrightarrow> \<not> digitalRead inp \<and> \<not> button_was_pressed s)
   \<and> button_was_pressed (loop inp s) = (\<not> digitalRead inp)
   \<and> (gaugeType (loop inp (loop before s)) \<noteq> gaugeType (loop before s)
        \<longrightarrow> \<not> digitalRead inp \<and> digitalRead before)
   \<and> button_was_pressed initial
   \<and> gaugeType initial = 1
   \<and> ((\<forall>i \<in> set inps. \<not> digitalRead i) \<longrightarrow> gaugeType (run inps initial) = 1)
   \<and> (\<not> digitalRead inp \<and> \<not> button_was_pressed s
        \<longrightarrow> gaugeType (loop inp s) = (if gaugeType s \<ge> 8 then 1 else gaugeType s + 1))
   \<and> 1 \<le> gaugeType (run inps initial) \<and> gaugeType (run inps initial) \<le> 8"
proof -
  have i: "button_was_pressed initial" "gaugeType initial = 1"
    by (simp_all add: initial_def)
  have "1 \<le> gaugeType (run inps initial) \<and> gaugeType (run inps initial) \<le> 8"
    by (rule run_mode_range) (simp_all add: i)
  moreover have "(\<forall>i \<in> set inps. \<not> digitalRead i) \<longrightarrow> gaugeType (run inps initial) = 1"
    using run_held [OF i(1)] i(2) by simp
  moreover have "gaugeType (loop inp (loop before s)) \<noteq> gaugeType (loop before s)
        \<longrightarrow> \<not> digitalRead inp \<and> digitalRead before"
    by (simp add: gaugeType_loop [of inp] button_was_pressed_loop split: if_splits)
  ultimately show ?thesis
    using i by (simp add: gaugeType_loop [of inp s] button_was_pressed_loop)
qed

text \<open>
  C10 at concrete passes: three passes with the button held from the start leave mode 1; a release and a press
  give mode 2; a press in mode 8 gives mode 1.
\<close>

theorem mode_advances_on_rising_edge_witness:
  "gaugeType (run [pressed, pressed, pressed] initial) = 1
   \<and> \<not> button_was_pressed (loop released initial)
   \<and> gaugeType (loop pressed (loop released initial)) = 2
   \<and> gaugeType (loop pressed ((loop released initial)\<lparr>gaugeType := 8\<rparr>)) = 1"
proof -
  have p: "\<not> digitalRead pressed" "digitalRead released"
    by (simp_all add: pressed_def released_def)
  have r: "\<not> button_was_pressed (loop released initial)"
    "gaugeType (loop released initial) = 1"
    by (simp_all add: button_was_pressed_loop gaugeType_loop p initial_def)
  show ?thesis
    using mode_advances_on_rising_edge [where inp = pressed and s = "loop released initial"
        and inps = "[pressed, pressed, pressed]"]
      mode_advances_on_rising_edge [where inp = pressed
        and s = "(loop released initial)\<lparr>gaugeType := 8\<rparr>" and inps = "[]"]
    by (simp add: p r)
qed

subsection \<open>Claims about the main loop\<close>

lemma cfg_loop: "cfg (loop inp s) = cfg (gauge inp s)"
  by (simp add: loop_def handle_button_frame)

lemma disp_loop: "disp (loop inp s) = disp (gauge inp s)"
  by (simp add: loop_def handle_button_frame)

lemma led_loop: "led (loop inp s) = led (gauge inp s)"
  by (simp add: loop_def handle_button_frame)

lemma oled_not_no_data:
  "oled (OLED_update v w p lbl t d) \<noteq> oled d @ [NoData]"
  using oled_OLED_update [of v w p lbl t d] by auto

text \<open>The stage bounds of a configuration that \<^verbatim>\<open>set_levels\<close> has written.\<close>

lemma set_levels_stages:
  "ledStages1 (set_levels pt0 pt1 stage0 stage1 c0 c1 c2 alarm c) = stage0"
  "ledStages2 (set_levels pt0 pt1 stage0 stage1 c0 c1 c2 alarm c) = stage1"
  by (simp_all add: set_levels_def)

text \<open>
  C4, as amended. After every pass of \<^verbatim>\<open>loop\<close> that applies a gauge configuration
  (every pass that does not draw the No Data page), the stage bounds satisfy
  \<open>pixelCount \<ge> ledStages[1] \<ge> ledStages[2] \<ge> 0\<close>. The bound
  \<open>pixelCount - 1 \<ge> ledStages[1]\<close> holds in every mode but the fuel level (mode 5),
  whose override sets \<open>ledStages[1]\<close> to \<open>pixelCount\<close>.
\<close>

theorem gauge_config_bounds:
  assumes "oled (disp (loop inp s)) \<noteq> oled (disp s) @ [NoData]"
  shows "0 \<le> ledStages2 (cfg (loop inp s))
    \<and> ledStages2 (cfg (loop inp s)) \<le> ledStages1 (cfg (loop inp s))
    \<and> ledStages1 (cfg (loop inp s)) \<le> NUMNEOPIXELS
    \<and> (ledStages1 (cfg (loop inp s)) \<le> NUMNEOPIXELS - 1) = (gaugeType s \<noteq> 5)
    \<and> (gaugeType s = 5 \<longrightarrow> ledStages1 (cfg (loop inp s)) = NUMNEOPIXELS)"
proof -
  note branch = cfg_loop disp_loop gauge_def Let_def show_gauge_frame show_no_data_frame
    set_levels_stages oled_not_no_data NUMNEOPIXELS_def
  consider "gaugeType s = 1" | "gaugeType s = 2" | "gaugeType s = 3" | "gaugeType s = 5"
    | "gaugeType s = 6" | "gaugeType s = 7" | "gaugeType s = 8"
    | "gaugeType s \<notin> {1, 2, 3, 5, 6, 7, 8}"
    by auto
  then show ?thesis
  proof cases
  case 1
  then show ?thesis
    using assms
    by (cases "ecu_req inp ENGINE_RPM = no_data_value") (simp_all add: branch)
  next
  case 2
  then show ?thesis
    using assms
    by (cases "ecu_req inp VEHICLE_SPEED = no_data_value") (simp_all add: branch)
  next
  case 3
  then show ?thesis
    using assms
    by (cases "ecu_req inp VEHICLE_SPEED \<noteq> no_data_value \<or> ecu_req inp MAF_SENSOR \<noteq> no_data_value") (simp_all add: branch)
  next
  case 4
  then show ?thesis
    using assms
    by (cases "ecu_req inp FUEL_LEVEL = no_data_value") (simp_all add: branch)
  next
  case 5
  then show ?thesis
    using assms
    by (cases "ecu_req inp ENGINE_COOLANT_TEMP = no_data_value") (simp_all add: branch)
  next
  case 6
  then show ?thesis
    using assms
    by (cases "ecu_req inp AMBIENT_TEMP = no_data_value") (simp_all add: branch)
  next
  case 7
  then show ?thesis
    using assms by (simp add: branch)
  next
  case 8
  then show ?thesis
    using assms
    by (cases "ecu_req inp MAP \<noteq> no_data_value \<or> ecu_req inp BAROMETRIC \<noteq> no_data_value")
       (simp_all add: branch)
  qed
qed

text \<open>
  C4 at concrete passes: the sketch in mode 5 with a fuel level of 50, and in mode 1 with
  3000 rpm.
\<close>

theorem gauge_config_bounds_witness:
  "gaugeType at_mode_5 = 5
   \<and> oled (disp (loop fuel_50 at_mode_5)) \<noteq> oled (disp at_mode_5) @ [NoData]
   \<and> ledStages2 (cfg (loop fuel_50 at_mode_5)) \<le> ledStages1 (cfg (loop fuel_50 at_mode_5))
   \<and> ledStages1 (cfg (loop fuel_50 at_mode_5)) = NUMNEOPIXELS
   \<and> gaugeType initial = 1
   \<and> oled (disp (loop rpm_3000 initial)) \<noteq> oled (disp initial) @ [NoData]
   \<and> ledStages1 (cfg (loop rpm_3000 initial)) \<le> NUMNEOPIXELS - 1"
proof -
  have g: "gaugeType at_mode_5 = 5" "gaugeType initial = 1"
    by (simp_all add: at_mode_5_def at_mode_3_def gaugeType_loop button_was_pressed_loop
        pressed_def released_def initial_def)
  have h5: "oled (disp (loop fuel_50 at_mode_5)) \<noteq> oled (disp at_mode_5) @ [NoData]"
    by (simp add: disp_loop gauge_def g fuel_50_def released_def no_data_value_def Let_def
        show_gauge_frame oled_not_no_data)
  have h1: "oled (disp (loop rpm_3000 initial)) \<noteq> oled (disp initial) @ [NoData]"
    by (simp add: disp_loop gauge_def g rpm_3000_def released_def no_data_value_def Let_def
        show_gauge_frame oled_not_no_data)
  show ?thesis
    using gauge_config_bounds [OF h5] gauge_config_bounds [OF h1] h5 h1
    by (simp add: g)
qed

text \<open>
  C4 as stated fails: four presses of the button lead to mode 5, and a pass there
  with a fuel level of 50 leaves \<open>ledStages[1] = 16\<close>, above \<open>pixelCount - 1 = 15\<close>.
\<close>

theorem gauge_config_counterexample:
  "at_mode_5 = run [released, pressed, released, pressed, released, pressed, released, pressed]
                 initial
   \<and> gaugeType at_mode_5 = 5
   \<and> ledStages1 (cfg (loop fuel_50 at_mode_5)) = 16
   \<and> \<not> NUMNEOPIXELS - 1 \<ge> ledStages1 (cfg (loop fuel_50 at_mode_5))"
proof -
  have g: "gaugeType at_mode_5 = 5"
    by (simp add: at_mode_5_def at_mode_3_def gaugeType_loop button_was_pressed_loop
        pressed_def released_def initial_def)
  have "ledStages1 (cfg (loop fuel_50 at_mode_5)) = 16"
    by (simp add: cfg_loop gauge_def g fuel_50_def released_def no_data_value_def Let_def
        show_gauge_frame NUMNEOPIXELS_def)
  then show ?thesis
    using g by (simp add: at_mode_5_def at_mode_3_def NUMNEOPIXELS_def)
qed

text \<open>
  The cases with one ECU query draw the No Data page when it answers 0.9, and change
  nothing else.
\<close>

lemma one_query_no_data:
  "gaugeType s = 1 \<Longrightarrow> ecu_req inp ENGINE_RPM = no_data_value \<Longrightarrow> gauge inp s = show_no_data s"
  "gaugeType s = 2 \<Longrightarrow> ecu_req inp VEHICLE_SPEED = no_data_value \<Longrightarrow> gauge inp s = show_no_data s"
  "gaugeType s = 5 \<Longrightarrow> ecu_req inp FUEL_LEVEL = no_data_value \<Longrightarrow> gauge inp s = show_no_data s"
  "gaugeType s = 6 \<Longrightarrow> ecu_req inp ENGINE_COOLANT_TEMP = no_data_value \<Longrightarrow>
     gauge inp s = show_no_data s"
  "gaugeType s = 7 \<Longrightarrow> ecu_req inp AMBIENT_TEMP = no_data_value \<Longrightarrow> gauge inp s = show_no_data s"
  by (simp_all add: gauge_def)

text \<open>The cases with two queries draw it only when both answer 0.9.\<close>

lemma two_queries_no_data:
  "gaugeType s = 3 \<Longrightarrow>
   (gauge inp s = show_no_data s)
     = (ecu_req inp VEHICLE_SPEED = no_data_value \<and> ecu_req inp MAF_SENSOR = no_data_value)"
proof (cases "ecu_req inp VEHICLE_SPEED = no_data_value \<and> ecu_req inp MAF_SENSOR = no_data_value")
  case True
  assume "gaugeType s = 3"
  with True show ?thesis
    by (simp add: gauge_def)
next
  case False
  assume g: "gaugeType s = 3"
  have "oled (disp (gauge inp s)) \<noteq> oled (disp (show_no_data s))"
    using False g
    by (auto simp: gauge_def Let_def show_gauge_frame show_no_data_frame oled_not_no_data)
  with False show ?thesis
    by auto
qed

text \<open>
  C2. In the cases with one ECU query (modes 1, 2, 5, 6 and 7) the answer 0.9 leads to the
  No Data page and to nothing else. In mode 3 (and likewise in mode 4) the test joins the
  two answers with \<^verbatim>\<open>||\<close>: when the mass air flow query answers 0.9 and the speed
  query answers 60, the pass applies the configuration of the gauge, draws a reading
  computed from the 0.9 and lights the whole strip.
\<close>

theorem no_data_in_one_query_renders:
  "gaugeType at_mode_3 = 3
   \<and> ecu_req speed_only MAF_SENSOR = no_data_value
   \<and> ecu_req speed_only VEHICLE_SPEED = 60
   \<and> last (oled (disp (loop speed_only at_mode_3))) \<noteq> NoData
   \<and> last (oled (disp (loop speed_only at_mode_3)))
       = Reading ''Instant MPG'' ((14.7 * 6.17 * 454 * 60 * 0.6213) / (3600 * no_data_value)) 4 1
   \<and> cfg (loop speed_only at_mode_3) = set_levels 1 50 14 12 48 10 0 False (cfg at_mode_3)
   \<and> cfg (loop speed_only at_mode_3) \<noteq> cfg at_mode_3
   \<and> show_calls (strip (led (loop speed_only at_mode_3)))
       = show_calls (strip (led at_mode_3)) + 2
   \<and> lit_pixels (strip (led (loop speed_only at_mode_3))) = 16"
  by code_simp

end
